theory Spec2Isabelle
  imports Complex_Main "HOL-Library.AList"
begin

section \<open>Strings, numbers and dates of the platform\<close>

text \<open>
  JavaScript strings are modelled as HOL strings, one \<^typ>\<open>char\<close> per code unit
  (the Latin-1 range). Timestamps (\<^verbatim>\<open>Date.now()\<close>) are integers: milliseconds since the
  epoch. A \<^verbatim>\<open>Date\<close> object holds a time value: such an integer of magnitude at most
  8.64e15, or \<^verbatim>\<open>NaN\<close> (an Invalid Date).
\<close>

datatype Date = InvalidDate | Millis int

text \<open>\<^verbatim>\<open>TimeClip\<close> of ECMAScript, on an integral time.\<close>

definition timeClip :: "int \<Rightarrow> Date" where
  "timeClip t = (if \<bar>t\<bar> > 8640000000000000 then InvalidDate else Millis t)"

text \<open>\<^verbatim>\<open>a < b\<close> on two \<^verbatim>\<open>Date\<close> objects: false when either is invalid.\<close>

definition dateBefore :: "Date \<Rightarrow> Date \<Rightarrow> bool" where
  "dateBefore a b \<longleftrightarrow>
     (case a of InvalidDate \<Rightarrow> False
      | Millis x \<Rightarrow> (case b of InvalidDate \<Rightarrow> False | Millis y \<Rightarrow> x < y))"

definition isDigit :: "char \<Rightarrow> bool" where
  "isDigit c \<longleftrightarrow> c \<in> set ''0123456789''"

text \<open>White space as \<^verbatim>\<open>String.prototype.trim\<close> and \<^verbatim>\<open>parseInt\<close> skip it:
  TAB, LF, VT, FF, CR, SP and NBSP.\<close>

definition isSpace :: "char \<Rightarrow> bool" where
  "isSpace c \<longleftrightarrow> (of_char c :: nat) \<in> set [9, 10, 11, 12, 13, 32, 160]"

text \<open>The regular expression class \<^verbatim>\<open>\w\<close>, which decides \<^verbatim>\<open>\b\<close>.\<close>

definition isWordChar :: "char \<Rightarrow> bool" where
  "isWordChar c \<longleftrightarrow>
     c \<in> set ''abcdefghijklmnopqrstuvwxyzABCDEFGHIJKLMNOPQRSTUVWXYZ0123456789_''"

definition trim :: "string \<Rightarrow> string" where
  "trim s = rev (dropWhile isSpace (rev (dropWhile isSpace s)))"

text \<open>\<^verbatim>\<open>/^\d{6}$/.test(s)\<close>\<close>

definition isSixDigits :: "string \<Rightarrow> bool" where
  "isSixDigits s \<longleftrightarrow> length s = 6 \<and> list_all isDigit s"

definition digitValue :: "char \<Rightarrow> int" where
  "digitValue c = of_char c - 48"

definition isHexDigit :: "char \<Rightarrow> bool" where
  "isHexDigit c \<longleftrightarrow> c \<in> set ''0123456789abcdefABCDEF''"

definition hexValue :: "char \<Rightarrow> int" where
  "hexValue c =
     (if isDigit c then of_char c - 48
      else if c \<in> set ''abcdef'' then of_char c - 87
      else of_char c - 55)"

definition numeral_of :: "int \<Rightarrow> (char \<Rightarrow> int) \<Rightarrow> string \<Rightarrow> int" where
  "numeral_of radix val ds = foldl (\<lambda>acc c. acc * radix + val c) 0 ds"

text \<open>
  \<^verbatim>\<open>parseInt(s)\<close> with no radix: leading white space is skipped, then an optional
  sign, then a \<^verbatim>\<open>0x\<close> prefix selects radix 16; the longest prefix of digits is read and
  the rest ignored. \<^term>\<open>None\<close> is \<^verbatim>\<open>NaN\<close>. (The rounding of values beyond 2^53
  to a double is not modelled.)
\<close>

definition parseInt :: "string \<Rightarrow> int option" where
  "parseInt s =
     (let s1 = dropWhile isSpace s;
          sign = (if take 1 s1 = ''-'' then - 1 else 1);
          s2 = (if take 1 s1 = ''-'' \<or> take 1 s1 = ''+'' then drop 1 s1 else s1)
      in if take 2 s2 = ''0x'' \<or> take 2 s2 = ''0X''
         then (let ds = takeWhile isHexDigit (drop 2 s2)
               in if ds = [] then None else Some (sign * numeral_of 16 hexValue ds))
         else (let ds = takeWhile isDigit s2
               in if ds = [] then None else Some (sign * numeral_of 10 digitValue ds)))"

definition digitChar :: "int \<Rightarrow> char" where
  "digitChar n = ''0123456789'' ! nat n"

text \<open>The decimal digits of a number that is not negative.\<close>

function decimal :: "int \<Rightarrow> string" where
  "decimal n = (if n < 10 then [digitChar n] else decimal (n div 10) @ [digitChar (n mod 10)])"
  by pat_completeness auto
termination
  by (relation "measure nat") auto

declare decimal.simps [simp del]

text \<open>\<^verbatim>\<open>Number.prototype.toString()\<close> on an integer.\<close>

definition toString :: "int \<Rightarrow> string" where
  "toString i = (if i < 0 then CHR ''-'' # decimal (- i) else decimal i)"

text \<open>
  Arithmetic on doubles, for values that are not negative. A value is given as an
  integer \<open>n\<close> over a fixed power of two; \<open>roundToDouble n\<close> is \<open>n\<close> rounded to 53 significant
  bits, ties to even, which is the numerator of the nearest double over the same power
  of two (the values met here are far from the subnormal range and from overflow).
\<close>

function bitLength :: "int \<Rightarrow> nat" where
  "bitLength n = (if n \<le> 0 then 0 else Suc (bitLength (n div 2)))"
  by pat_completeness auto
termination
  by (relation "measure nat") auto

declare bitLength.simps [simp del]

definition roundToDouble :: "int \<Rightarrow> int" where
  "roundToDouble n =
     (if bitLength n \<le> 53 then n
      else
        (let s = bitLength n - 53;
             q = n div 2 ^ s;
             r = n mod 2 ^ s;
             half = 2 ^ (s - 1)
         in (if r > half \<or> (r = half \<and> odd q) then q + 1 else q) * 2 ^ s))"

definition upperChar :: "char \<Rightarrow> char" where
  "upperChar c =
     (case map_of (zip ''abcdefghijklmnopqrstuvwxyz'' ''ABCDEFGHIJKLMNOPQRSTUVWXYZ'') c of
        None \<Rightarrow> c | Some u \<Rightarrow> u)"

definition toUpperCase :: "string \<Rightarrow> string" where
  "toUpperCase s = map upperChar s"

definition join :: "string \<Rightarrow> string list \<Rightarrow> string" where
  "join sep xs = (case xs of [] \<Rightarrow> [] | y # ys \<Rightarrow> foldl (\<lambda>acc x. acc @ sep @ x) y ys)"

subsection \<open>extractAWB (server.ts)\<close>

text \<open>
  \<^verbatim>\<open>input.match(/\bAWB\d{6}\b/i)\<close>: does the pattern match at the head of \<open>s\<close>,
  given the character \<open>prev\<close> before it? The leading \<^verbatim>\<open>\b\<close> needs a non-word
  character (or the start) before the \<^verbatim>\<open>A\<close>, the trailing one a non-word character
  (or the end) after the sixth digit.
\<close>

definition awbMatchesAt :: "char option \<Rightarrow> string \<Rightarrow> bool" where
  "awbMatchesAt prev s \<longleftrightarrow>
     (case prev of None \<Rightarrow> True | Some p \<Rightarrow> \<not> isWordChar p) \<and>
     toUpperCase (take 3 s) = ''AWB'' \<and>
     isSixDigits (take 6 (drop 3 s)) \<and>
     (case drop 9 s of [] \<Rightarrow> True | c # _ \<Rightarrow> \<not> isWordChar c)"

fun awbScan :: "char option \<Rightarrow> string \<Rightarrow> string option" where
  "awbScan prev [] = None"
| "awbScan prev (c # cs) =
     (if awbMatchesAt prev (c # cs) then Some (toUpperCase (take 9 (c # cs)))
      else awbScan (Some c) cs)"

definition extractAWB :: "string \<Rightarrow> string option" where
  "extractAWB input = awbScan None input"

section \<open>Orders and the Order Store (database.ts)\<close>

datatype status =
  Processing | Shipped | InTransit | OutForDelivery | Delivered | Delayed | Rescheduled

text \<open>The string a status is in the source (\<^verbatim>\<open>${order.status}\<close>).\<close>

fun statusString :: "status \<Rightarrow> string" where
  "statusString Processing = ''Processing''"
| "statusString Shipped = ''Shipped''"
| "statusString InTransit = ''In Transit''"
| "statusString OutForDelivery = ''Out for Delivery''"
| "statusString Delivered = ''Delivered''"
| "statusString Delayed = ''Delayed''"
| "statusString Rescheduled = ''Rescheduled''"

text \<open>
  \<^verbatim>\<open>interface DeliveryStatus\<close>. The optional boolean \<^verbatim>\<open>rescheduled\<close> is only ever
  tested for truthiness, so undefined is \<^term>\<open>False\<close>.
\<close>

record DeliveryStatus =
  awb :: string
  status :: status
  lastUpdate :: Date
  estimatedDelivery :: "Date option"
  scheduledDelivery :: "Date option"
  delayReason :: "string option"
  customerName :: "string option"
  customerPhone :: "string option"
  rescheduled :: bool

text \<open>
  The collection \<^verbatim>\<open>db.orders\<close>, in document order, and whether the driver's
  connection is up: every driver call of a request rejects when it is down.
\<close>

record database =
  orders :: "DeliveryStatus list"
  connected :: bool

datatype error = DbError

text \<open>\<^verbatim>\<open>this.orders.findOne({ awb })\<close>\<close>

definition getOrderStatus :: "database \<Rightarrow> string \<Rightarrow> error + DeliveryStatus option" where
  "getOrderStatus db a =
     (if connected db then Inr (find (\<lambda>d. awb d = a) (orders db)) else Inl DbError)"

fun updateFirst :: "('a \<Rightarrow> bool) \<Rightarrow> ('a \<Rightarrow> 'a) \<Rightarrow> 'a list \<Rightarrow> 'a list" where
  "updateFirst P f [] = []"
| "updateFirst P f (x # xs) = (if P x then f x # xs else x # updateFirst P f xs)"

text \<open>
  \<^verbatim>\<open>rescheduleOrder(awb, newDate)\<close>: \<^verbatim>\<open>updateOne\<close> with \<^verbatim>\<open>$set\<close> on the first
  matching document; \<^verbatim>\<open>modifiedCount === 1\<close> when a document matched and was changed.
  A rejected driver call is caught and gives \<^verbatim>\<open>false\<close>. \<open>today\<close> is \<^verbatim>\<open>new Date()\<close>.
\<close>

definition rescheduleOrder :: "database \<Rightarrow> string \<Rightarrow> Date \<Rightarrow> Date \<Rightarrow> bool \<times> database" where
  "rescheduleOrder db a newDate today =
     (if \<not> connected db then (False, db)
      else
        (let set_fields = (\<lambda>d. d\<lparr>scheduledDelivery := Some newDate, status := Rescheduled,
                                   rescheduled := True, lastUpdate := today\<rparr>)
         in case find (\<lambda>d. awb d = a) (orders db) of
              None \<Rightarrow> (False, db)
            | Some d \<Rightarrow>
                (set_fields d \<noteq> d,
                 db\<lparr>orders := updateFirst (\<lambda>d. awb d = a) set_fields (orders db)\<rparr>)))"

definition canReschedule :: "DeliveryStatus \<Rightarrow> bool" where
  "canReschedule order \<longleftrightarrow>
     status order \<noteq> Delivered \<and> status order \<noteq> OutForDelivery \<and> \<not> rescheduled order"

section \<open>The environment of one request\<close>

text \<open>What the Intent Resolver (the chat-completion call of llmHandler.ts) returns:
  the call rejects, or the first choice has no tool call, or it has one, with a function
  name and an arguments string. The arguments of a tool call after
  \<^verbatim>\<open>arguments ? JSON.parse(arguments) : {}\<close>: \<open>ArgsUnparsable\<close> when that throws
  (or gives \<^verbatim>\<open>null\<close>, so that reading a property of it throws), otherwise the two properties the handler reads (\<^term>\<open>None\<close> when absent).\<close>

datatype tool_args = ArgsUnparsable | Args (arg_action: "string option") (arg_type: "string option")

datatype llm_result = LlmRejects | NoToolCall | ToolCall string tool_args

text \<open>
  Everything a request reads from outside the server's own state:
  \<^item> the clock at the three \<^verbatim>\<open>Date.now()\<close> calls of the chat route (arrival, OTP check,
    OTP issuance) and the time value of \<^verbatim>\<open>new Date()\<close>;
  \<^item> \<^verbatim>\<open>Math.random()\<close>, a double in [0, 1) as the engines make it from at most 53 random
    bits: the field is the integer \<open>k\<close> with \<^verbatim>\<open>Math.random()\<close> = \<open>k / 2^53\<close>;
  \<^item> the resolver's outcome;
  \<^item> the three Twilio settings of \<^verbatim>\<open>process.env\<close> (empty when unset) and whether
    Twilio accepts a message handed to it;
  \<^item> the platform's time zone, as \<^verbatim>\<open>LocalTZA(t, isUTC)\<close> of ECMAScript: the offset of
    local time from UTC in milliseconds, at the UTC time \<open>t\<close> when \<open>isUTC\<close> is true and at
    the local time \<open>t\<close> when it is false;
  \<^item> the three date formatters the code calls (\<^verbatim>\<open>toLocaleDateString\<close> with the options
    of \<^verbatim>\<open>generateRescheduleOptions\<close>, and \<^verbatim>\<open>toLocaleDateString()\<close> and
    \<^verbatim>\<open>toLocaleString()\<close>).
\<close>

record env =
  now :: int
  nowOtpCheck :: int
  nowOtpIssue :: int
  nowDate :: int
  mathRandom :: int
  llm :: llm_result
  accountSid :: string
  authToken :: string
  twilioPhone :: string
  twilioAccepts :: bool
  localTZA :: "int \<Rightarrow> bool \<Rightarrow> int"
  shortDate :: "Date \<Rightarrow> string"
  localeDate :: "Date \<Rightarrow> string"
  localeDateTime :: "Date \<Rightarrow> string"

text \<open>\<^verbatim>\<open>new Date()\<close>\<close>

definition today :: "env \<Rightarrow> Date" where
  "today e = Millis (nowDate e)"

definition msPerDay :: int where
  "msPerDay = 24 * 60 * 60 * 1000"

definition msPerHour :: int where
  "msPerHour = 60 * 60 * 1000"

text \<open>\<^verbatim>\<open>LocalTime(t)\<close> and \<^verbatim>\<open>UTC(t)\<close> of ECMAScript.\<close>

definition localTime :: "env \<Rightarrow> int \<Rightarrow> int" where
  "localTime e t = t + localTZA e t True"

definition utc :: "env \<Rightarrow> int \<Rightarrow> int" where
  "utc e t = t - localTZA e t False"

text \<open>The day number and the time within the day of a local time (\<^verbatim>\<open>Day\<close>,
  \<^verbatim>\<open>TimeWithinDay\<close>).\<close>

definition localDay :: "env \<Rightarrow> int \<Rightarrow> int" where
  "localDay e t = localTime e t div msPerDay"

definition localTimeOfDay :: "env \<Rightarrow> int \<Rightarrow> int" where
  "localTimeOfDay e t = localTime e t mod msPerDay"

text \<open>
  \<^verbatim>\<open>date.setDate(date.getDate() + i)\<close>: an Invalid Date stays invalid; otherwise the
  local time is moved by \<open>i\<close> days (\<^verbatim>\<open>MakeDay\<close> with the day of the month plus \<open>i\<close>, the
  time within the day kept), taken back to UTC and clipped.
\<close>

definition addDays :: "env \<Rightarrow> int \<Rightarrow> Date \<Rightarrow> Date" where
  "addDays e i d =
     (case d of
        InvalidDate \<Rightarrow> InvalidDate
      | Millis t \<Rightarrow> timeClip (utc e (localTime e t + i * msPerDay)))"

text \<open>\<^verbatim>\<open>date.setHours(h, 0, 0, 0)\<close>: the local day of the date, at \<open>h\<close> o'clock local time,
  taken back to UTC and clipped.\<close>

definition setHours :: "env \<Rightarrow> int \<Rightarrow> Date \<Rightarrow> Date" where
  "setHours e h d =
     (case d of
        InvalidDate \<Rightarrow> InvalidDate
      | Millis t \<Rightarrow> timeClip (utc e (localDay e t * msPerDay + h * msPerHour)))"

section \<open>The notifier (whatsappNotifier.ts)\<close>

text \<open>The message \<^verbatim>\<open>client.messages.create\<close> is called with.\<close>

record twilio_message =
  msg_body :: string
  msg_from :: string
  msg_to :: string

text \<open>
  What a call of \<^verbatim>\<open>sendWhatsAppUpdate\<close> does: it returns at once when a Twilio setting
  is missing; otherwise it hands the message to Twilio, which accepts it or rejects it,
  and a rejection is caught and logged. The call itself never rejects.
\<close>

datatype delivery = NotConfigured | Accepted twilio_message | Refused twilio_message

definition sendWhatsAppUpdate :: "env \<Rightarrow> string \<Rightarrow> string \<Rightarrow> delivery" where
  "sendWhatsAppUpdate e phone message =
     (if accountSid e = [] \<or> authToken e = [] \<or> twilioPhone e = [] then NotConfigured
      else
        (let whatsappFrom =
               (if twilioPhone e = ''+14066064690'' then ''+14155238886'' else twilioPhone e);
             m = \<lparr>msg_body = message, msg_from = ''whatsapp:'' @ whatsappFrom,
                  msg_to = ''whatsapp:'' @ phone\<rparr>
         in if twilioAccepts e then Accepted m else Refused m))"

text \<open>
  \<^verbatim>\<open>formatWhatsAppMessage\<close>. The four pictographs of the source are outside the range
  of \<^typ>\<open>char\<close>; each is written as the bytes of its UTF-8 encoding.
\<close>

definition formatWhatsAppMessage :: "env \<Rightarrow> DeliveryStatus \<Rightarrow> string" where
  "formatWhatsAppMessage e order =
     [CHR 0xF0, CHR 0x9F, CHR 0x93, CHR 0xA6] @ '' Order Update: '' @ awb order @ [CHR 0x0A] @
     [CHR 0xF0, CHR 0x9F, CHR 0x94, CHR 0x84] @ '' Status: '' @ statusString (status order) @
       [CHR 0x0A] @
     [CHR 0xF0, CHR 0x9F, CHR 0x93, CHR 0x85] @ '' Scheduled Delivery: '' @
       (case scheduledDelivery order of
          None \<Rightarrow> ''N/A''
        | Some d \<Rightarrow> if localeDateTime e d = [] then ''N/A'' else localeDateTime e d) @
       [CHR 0x0A] @
     [CHR 0xE2, CHR 0x8F, CHR 0xB0] @ '' Last Updated: '' @ localeDateTime e (lastUpdate order) @
       [CHR 0x0A] @
     [CHR 0x0A] @ ''Thank you for using our service!''"

section \<open>The Intent Resolver's handler (llmHandler.ts)\<close>

datatype state =
  INITIAL | AWAITING_AWB | AWAITING_OTP | ORDER_FOUND | RESCHEDULE_OPTIONS
  | RESCHEDULE_CONFIRMATION | COMPLETED | SESSION_EXPIRED

text \<open>\<^verbatim>\<open>type LLMResponse\<close>; an optional flag is \<^term>\<open>None\<close> when the object literal
  leaves it out.\<close>

record LLMResponse =
  response :: string
  nextState :: state
  requiresAwb :: "bool option"
  requiresReschedule :: "bool option"
  showDetails :: "bool option"
  endConversation :: "bool option"

definition llmResponse :: "string \<Rightarrow> state \<Rightarrow> LLMResponse" where
  "llmResponse text st =
     \<lparr>response = text, nextState = st, requiresAwb = None, requiresReschedule = None,
      showDetails = None, endConversation = None\<rparr>"

definition handleOrderAction :: "string option \<Rightarrow> DeliveryStatus option \<Rightarrow> LLMResponse" where
  "handleOrderAction action order =
     (case order of
        None \<Rightarrow>
          (llmResponse
             ''I'd be happy to help track your order! Could you share your tracking number with me?''
             AWAITING_AWB)\<lparr>requiresAwb := Some True\<rparr>
      | Some ord \<Rightarrow>
          if action = Some ''status'' then
            llmResponse (''Your order '' @ awb ord @ '' is currently: '' @
                         statusString (status ord) @ ''.'') ORDER_FOUND
          else if action = Some ''details'' then
            (llmResponse ''Here are your order details:'' ORDER_FOUND)\<lparr>showDetails := Some True\<rparr>
          else if action = Some ''reschedule'' then
            (if \<not> canReschedule ord then
               llmResponse ''I'm sorry, but this order can't be rescheduled right now.''
                 ORDER_FOUND
             else
               (llmResponse ''Sure, I can help with that! Here are some available slots:''
                  RESCHEDULE_OPTIONS)\<lparr>requiresReschedule := Some True\<rparr>)
          else llmResponse ''How else can I help with your order?'' ORDER_FOUND)"

definition handleGreeting :: LLMResponse where
  "handleGreeting = llmResponse ''Hello! How can I help with your delivery?'' INITIAL"

definition handleFarewell :: LLMResponse where
  "handleFarewell =
     (llmResponse ''Thank you! Have a great day!'' COMPLETED)\<lparr>endConversation := Some True\<rparr>"

text \<open>
  \<^verbatim>\<open>handleLlmRequest\<close>, given the resolver's outcome. The \<^verbatim>\<open>catch\<close> takes a rejected
  call and a \<^verbatim>\<open>JSON.parse\<close> that throws, and nothing escapes it.
\<close>

definition handleLlmRequest :: "llm_result \<Rightarrow> state \<Rightarrow> DeliveryStatus option \<Rightarrow> LLMResponse" where
  "handleLlmRequest outcome currentState order =
     (case outcome of
        LlmRejects \<Rightarrow>
          llmResponse ''I'm having some trouble right now. Could you try again in a moment?''
            INITIAL
      | NoToolCall \<Rightarrow> llmResponse ''How can I help with your delivery today?'' currentState
      | ToolCall name ArgsUnparsable \<Rightarrow>
          llmResponse ''I'm having some trouble right now. Could you try again in a moment?''
            INITIAL
      | ToolCall name (Args action type) \<Rightarrow>
          if name = ''get_order_info'' then handleOrderAction action order
          else if name = ''handle_conversation'' then
            (if type = Some ''greeting'' then handleGreeting else handleFarewell)
          else llmResponse ''How can I assist with your delivery?'' INITIAL)"

text \<open>
  \<^verbatim>\<open>AIAssistant.handleUserMessage\<close>: the assistant is one object for the whole server,
  and \<^verbatim>\<open>this.conversationState\<close> is what it passes to the resolver and what it
  overwrites with the answer's \<^verbatim>\<open>nextState\<close>. Its own \<^verbatim>\<open>catch\<close> is never entered,
  since \<^verbatim>\<open>handleLlmRequest\<close> does not reject. Returns the answer and the assistant's
  new state.
\<close>

definition handleUserMessage :: "env \<Rightarrow> state \<Rightarrow> DeliveryStatus option \<Rightarrow> LLMResponse \<times> state" where
  "handleUserMessage e assistantState order =
     (let llmResponse = handleLlmRequest (llm e) assistantState order
      in (llmResponse, nextState llmResponse))"

record RescheduleOption =
  date :: Date
  display :: string

text \<open>One round of the loop of \<^verbatim>\<open>generateRescheduleOptions\<close>, for the counter \<open>i\<close>.\<close>

definition rescheduleOption :: "env \<Rightarrow> Date \<Rightarrow> int \<Rightarrow> RescheduleOption" where
  "rescheduleOption e baseDate i =
     (let d0 = addDays e i baseDate;
          slotType = [''Morning'', ''Afternoon'', ''Evening''] ! nat (i mod 3);
          d = (if slotType = ''Morning'' then setHours e 9 d0
               else if slotType = ''Afternoon'' then setHours e 13 d0
               else if slotType = ''Evening'' then setHours e 18 d0
               else d0)
      in \<lparr>date = d, display = shortDate e d @ '' | '' @ slotType\<rparr>)"

function generateLoop :: "env \<Rightarrow> Date \<Rightarrow> int \<Rightarrow> RescheduleOption list \<Rightarrow> RescheduleOption list" where
  "generateLoop e baseDate i options =
     (if i \<le> 3 then generateLoop e baseDate (i + 1) (options @ [rescheduleOption e baseDate i])
      else options)"
  by pat_completeness auto
termination
  by (relation "measure (\<lambda>(e, baseDate, i, options). nat (4 - i))") auto

declare generateLoop.simps [simp del]

definition generateRescheduleOptions :: "env \<Rightarrow> Date \<Rightarrow> RescheduleOption list" where
  "generateRescheduleOptions e baseDate = generateLoop e baseDate 1 []"

definition formatOrderDetails :: "env \<Rightarrow> DeliveryStatus \<Rightarrow> string" where
  "formatOrderDetails e order =
     join [CHR 0x0A]
       ([''AWB: '' @ awb order,
         ''Status: '' @ statusString (status order),
         ''Est. Delivery: '' @
           (case estimatedDelivery order of
              None \<Rightarrow> ''N/A''
            | Some d \<Rightarrow> if localeDate e d = [] then ''N/A'' else localeDate e d)] @
        (case scheduledDelivery order of
           None \<Rightarrow> []
         | Some d \<Rightarrow> [''Scheduled Delivery: '' @ localeDateTime e d]) @
        [''Last Updated: '' @ localeDateTime e (lastUpdate order),
         if rescheduled order then ''(Rescheduled)'' else []])"

section \<open>Sessions and the chat route (server.ts)\<close>

definition SESSION_EXPIRATION :: int where
  "SESSION_EXPIRATION = 2 * 60 * 1000"

text \<open>
  The value type of the \<^verbatim>\<open>sessions\<close> map. \<^verbatim>\<open>otpVerified\<close> is optional in the type
  but set at creation, and only tested for truthiness.
\<close>

record session =
  conversationState :: state
  currentOrder :: "DeliveryStatus option"
  rescheduleOptions :: "RescheduleOption list"
  lastActive :: int
  otp :: "string option"
  otpTimestamp :: "int option"
  otpVerified :: bool

text \<open>
  The module-level state: the \<^verbatim>\<open>sessions\<close> map (a JavaScript \<^verbatim>\<open>Map\<close>, in insertion
  order), the \<^verbatim>\<open>expiredSessions\<close> set, the one \<^verbatim>\<open>aiAssistant.conversationState\<close>
  shared by every session, and the Order Store.
\<close>

record server =
  sessions :: "(string \<times> session) list"
  expiredSessions :: "string set"
  assistant :: state
  db :: database

text \<open>The body of a JSON answer of the chat route; a field the object literal leaves
  out (or sets to \<^verbatim>\<open>null\<close>) is \<^term>\<open>None\<close>. The fields carry the prefix \<open>res_\<close> to
  keep them apart from those of \<^typ>\<open>session\<close> and \<^typ>\<open>LLMResponse\<close>.\<close>

record reply =
  res_response :: string
  res_conversationState :: state
  res_requiresAwb :: "bool option"
  res_requiresReschedule :: "bool option"
  res_showDetails :: "bool option"
  res_endConversation :: "bool option"
  res_requiresOtp :: "bool option"
  res_sessionExpired :: "bool option"
  res_orderDetails :: "string option"
  res_rescheduleOptions :: "string list option"
  res_whatsappSent :: "bool option"

text \<open>Status 400 (no session id), status 500 (the route's \<^verbatim>\<open>catch\<close>), or a JSON body.\<close>

datatype http_response = BadRequest | InternalError | Json reply

record request =
  message :: "string option"
  sessionId :: string

text \<open>A call of \<^verbatim>\<open>sendWhatsAppUpdate(phone, text)\<close> and what it did.\<close>

type_synonym notification = "string \<times> string \<times> delivery"

definition notify :: "env \<Rightarrow> string \<Rightarrow> string \<Rightarrow> notification" where
  "notify e phone text = (phone, text, sendWhatsAppUpdate e phone text)"

type_synonym result = "http_response \<times> notification list \<times> session \<times> server"

definition mkReply :: "string \<Rightarrow> state \<Rightarrow> reply" where
  "mkReply text st =
     \<lparr>res_response = text, res_conversationState = st, res_requiresAwb = None,
      res_requiresReschedule = None, res_showDetails = None, res_endConversation = None,
      res_requiresOtp = None, res_sessionExpired = None, res_orderDetails = None,
      res_rescheduleOptions = None, res_whatsappSent = None\<rparr>"

definition expiredReply :: reply where
  "expiredReply =
     (mkReply
        ''Your session has expired due to inactivity. Please start a new conversation to continue.''
        SESSION_EXPIRED)
       \<lparr>res_requiresReschedule := Some False, res_requiresAwb := Some False,
        res_showDetails := Some False, res_endConversation := Some True,
        res_sessionExpired := Some True\<rparr>"

definition newSession :: "env \<Rightarrow> session" where
  "newSession e =
     \<lparr>conversationState = INITIAL, currentOrder = None, rescheduleOptions = [],
      lastActive = now e, otp = None, otpTimestamp = None, otpVerified = False\<rparr>"

text \<open>Truthiness of an optional string: neither undefined nor empty.\<close>

definition truthy :: "string option \<Rightarrow> bool" where
  "truthy x \<longleftrightarrow> (case x of None \<Rightarrow> False | Some v \<Rightarrow> v \<noteq> [])"

text \<open>The condition of the inner \<^verbatim>\<open>if\<close> of the OTP block, for the trimmed message \<open>m\<close>.\<close>

definition otpMatches :: "env \<Rightarrow> session \<Rightarrow> string \<Rightarrow> bool" where
  "otpMatches e s m \<longleftrightarrow>
     (case otp s of
        None \<Rightarrow> False
      | Some code \<Rightarrow>
          code \<noteq> [] \<and>
          (case otpTimestamp s of
             None \<Rightarrow> False
           | Some ts \<Rightarrow> ts \<noteq> 0 \<and> nowOtpCheck e - ts \<le> 2 * 60 * 1000 \<and> m = code))"

text \<open>
  The steps of the route after the session is resolved. Each works on the session
  object \<open>s\<close> and the rest of the server's state \<open>w\<close>; a step that answers returns the
  response, the notifier calls made, and both as it leaves them. A missing or
  non-string \<^verbatim>\<open>message\<close> (\<^term>\<open>None\<close>) throws at its first use, which the route's
  \<^verbatim>\<open>catch\<close> answers with status 500.
\<close>

definition otpVerification :: "env \<Rightarrow> string option \<Rightarrow> session \<Rightarrow> server \<Rightarrow> result option" where
  "otpVerification e msg s w =
     (if conversationState s = AWAITING_OTP \<and> \<not> otpVerified s then
        Some
          (case msg of
             None \<Rightarrow> (InternalError, [], s, w)
           | Some m \<Rightarrow>
               if isSixDigits (trim m) then
                 (if otpMatches e s (trim m) then
                    (Json ((mkReply
                              ''Verification successful! You can now access your order details.''
                              ORDER_FOUND)\<lparr>res_requiresOtp := Some False\<rparr>),
                     [], s\<lparr>otpVerified := True, conversationState := ORDER_FOUND\<rparr>, w)
                  else
                    (Json ((mkReply ''Verification unsuccessful, try again later.'' INITIAL)
                             \<lparr>res_requiresOtp := Some False\<rparr>),
                     [],
                     s\<lparr>otp := None, otpTimestamp := None, otpVerified := False,
                       conversationState := INITIAL\<rparr>,
                     w))
               else
                 (Json ((mkReply ''Please enter the 6-digit OTP sent to your WhatsApp number.''
                           AWAITING_OTP)\<lparr>res_requiresOtp := Some True\<rparr>),
                  [], s, w))
      else None)"

definition rangeReply :: "session \<Rightarrow> reply" where
  "rangeReply s =
     (mkReply (''Please enter a number between 1 and '' @
               toString (int (length (rescheduleOptions s))) @ ''.'') RESCHEDULE_OPTIONS)
       \<lparr>res_requiresReschedule := Some False, res_requiresAwb := Some False,
        res_showDetails := Some False, res_endConversation := Some False\<rparr>"

definition failedReply :: reply where
  "failedReply =
     (mkReply ''Failed to reschedule. Please try again later.'' ORDER_FOUND)
       \<lparr>res_requiresReschedule := Some False, res_requiresAwb := Some False,
        res_showDetails := Some False, res_endConversation := Some False\<rparr>"

text \<open>The answer after a successful reschedule to \<open>selected\<close>; \<open>fresh\<close> is the order as
  read back from the store.\<close>

definition rescheduledReply :: "env \<Rightarrow> RescheduleOption \<Rightarrow> DeliveryStatus option \<Rightarrow> reply" where
  "rescheduledReply e selected fresh =
     (mkReply (''Your order has been rescheduled to '' @ display selected @ ''.'') ORDER_FOUND)
       \<lparr>res_orderDetails := map_option (formatOrderDetails e) fresh,
        res_whatsappSent := Some (truthy (Option.bind fresh customerPhone)),
        res_requiresReschedule := Some False, res_requiresAwb := Some False,
        res_showDetails := Some True, res_endConversation := Some False\<rparr>"

text \<open>Slot selection. \<^term>\<open>None\<close>: the block is not entered, or it is left without an
  answer (a valid number but no current order).\<close>

definition slotSelection :: "env \<Rightarrow> string option \<Rightarrow> session \<Rightarrow> server \<Rightarrow> result option" where
  "slotSelection e msg s w =
     (if conversationState s = RESCHEDULE_OPTIONS \<and> length (rescheduleOptions s) > 0 then
        (case msg of
           None \<Rightarrow> Some (InternalError, [], s, w)
         | Some m \<Rightarrow>
             (case parseInt (trim m) of
                None \<Rightarrow> Some (Json (rangeReply s), [], s, w)
              | Some slotNumber \<Rightarrow>
                  if slotNumber \<ge> 1 \<and> slotNumber \<le> int (length (rescheduleOptions s)) then
                    (let selectedOption = rescheduleOptions s ! nat (slotNumber - 1)
                     in case currentOrder s of
                          None \<Rightarrow> None
                        | Some ord \<Rightarrow>
                            (case rescheduleOrder (db w) (awb ord) (date selectedOption) (today e) of
                               (False, db') \<Rightarrow> Some (Json failedReply, [], s, w\<lparr>db := db'\<rparr>)
                             | (True, db') \<Rightarrow>
                                 (case getOrderStatus db' (awb ord) of
                                    Inl err \<Rightarrow> Some (InternalError, [], s, w\<lparr>db := db'\<rparr>)
                                  | Inr fresh \<Rightarrow>
                                      Some
                                        (Json (rescheduledReply e selectedOption fresh),
                                         (case fresh of
                                            None \<Rightarrow> []
                                          | Some f \<Rightarrow>
                                              if truthy (customerPhone f)
                                              then [notify e (the (customerPhone f))
                                                      (formatWhatsAppMessage e f)]
                                              else []),
                                         s\<lparr>currentOrder := fresh, rescheduleOptions := [],
                                           conversationState := ORDER_FOUND\<rparr>,
                                         w\<lparr>db := db'\<rparr>))))
                  else Some (Json (rangeReply s), [], s, w)))
      else None)"

definition otpRequestReply :: reply where
  "otpRequestReply =
     (mkReply
        ''For your security, please enter the 6-digit OTP sent to your WhatsApp number to access your order details.''
        AWAITING_OTP)\<lparr>res_requiresOtp := Some True\<rparr>"

definition otpMessage :: "string \<Rightarrow> string" where
  "otpMessage code =
     ''Your verification code is: '' @ code @ [CHR 0x0A] @ ''This code is valid for 2 minutes.''"

text \<open>
  \<^verbatim>\<open>Math.floor(100000 + Math.random() * 900000).toString()\<close>, in double arithmetic with
  all values over \<open>2^53\<close>: the product is rounded, the sum is rounded, and the floor is
  exact.
\<close>

definition generateOtp :: "env \<Rightarrow> string" where
  "generateOtp e =
     toString (roundToDouble (100000 * 2 ^ 53 + roundToDouble (mathRandom e * 900000)) div 2 ^ 53)"

text \<open>Tracking-id extraction and OTP issuance. \<open>Inl\<close>: the step answers; \<open>Inr\<close>: the
  route goes on with the session as the step leaves it. The notifier call of this
  step is awaited; it never rejects, whatever Twilio does.\<close>

definition awbExtraction :: "env \<Rightarrow> string option \<Rightarrow> session \<Rightarrow> server \<Rightarrow> result + session" where
  "awbExtraction e msg s w =
     (case msg of
        None \<Rightarrow> Inl (InternalError, [], s, w)
      | Some m \<Rightarrow>
          (case extractAWB m of
             None \<Rightarrow> Inr s
           | Some awbFromInput \<Rightarrow>
               (case getOrderStatus (db w) awbFromInput of
                  Inl err \<Rightarrow> Inl (InternalError, [], s, w)
                | Inr None \<Rightarrow> Inr s
                | Inr (Some freshOrder) \<Rightarrow>
                    if \<not> otpVerified s then
                      (let code = generateOtp e;
                           s' = s\<lparr>currentOrder := Some freshOrder, otp := Some code,
                                 otpTimestamp := Some (nowOtpIssue e),
                                 conversationState := AWAITING_OTP\<rparr>
                       in if truthy (customerPhone freshOrder) then
                            Inl (Json otpRequestReply,
                                 [notify e (the (customerPhone freshOrder)) (otpMessage code)],
                                 s', w)
                          else Inl (Json otpRequestReply, [], s', w))
                    else Inr (s\<lparr>currentOrder := Some freshOrder\<rparr>))))"

definition verificationGate :: "session \<Rightarrow> server \<Rightarrow> result option" where
  "verificationGate s w =
     (if currentOrder s \<noteq> None \<and> \<not> otpVerified s then
        Some (Json ((mkReply ''Please complete OTP verification to access your order details.''
                       AWAITING_OTP)\<lparr>res_requiresOtp := Some True\<rparr>),
              [], s, w)
      else None)"

text \<open>Intent dispatch: the assistant's answer, the session's state taken from the
  assistant, the options generated and stored, and the response assembled.\<close>

definition intentDispatch :: "env \<Rightarrow> session \<Rightarrow> server \<Rightarrow> result" where
  "intentDispatch e s w =
     (let (answer, assistant') = handleUserMessage e (assistant w) (currentOrder s);
          s1 = s\<lparr>conversationState := assistant'\<rparr>;
          wanted = (requiresReschedule answer = Some True);
          options =
            (case currentOrder s of
               None \<Rightarrow> []
             | Some ord \<Rightarrow>
                 if wanted
                 then generateRescheduleOptions e
                        (case estimatedDelivery ord of None \<Rightarrow> today e | Some d \<Rightarrow> d)
                 else []);
          s2 = (if wanted \<and> currentOrder s \<noteq> None then s1\<lparr>rescheduleOptions := options\<rparr>
                else s1);
          responseData =
            (mkReply (response answer) (conversationState s2))
              \<lparr>res_requiresReschedule := requiresReschedule answer,
               res_requiresAwb := requiresAwb answer,
               res_showDetails := showDetails answer,
               res_endConversation := endConversation answer,
               res_orderDetails :=
                 (if showDetails answer = Some True
                  then map_option (formatOrderDetails e) (currentOrder s) else None),
               res_rescheduleOptions :=
                 (if wanted \<and> length options > 0 then Some (map display options) else None)\<rparr>
      in (Json responseData, [], s2, w\<lparr>assistant := assistant'\<rparr>))"

definition processMessage :: "env \<Rightarrow> string option \<Rightarrow> session \<Rightarrow> server \<Rightarrow> result" where
  "processMessage e msg s w =
     (case otpVerification e msg s w of
        Some r \<Rightarrow> r
      | None \<Rightarrow>
          (case slotSelection e msg s w of
             Some r \<Rightarrow> r
           | None \<Rightarrow>
               (case awbExtraction e msg s w of
                  Inl r \<Rightarrow> r
                | Inr s1 \<Rightarrow>
                    (case verificationGate s1 w of
                       Some r \<Rightarrow> r
                     | None \<Rightarrow> intentDispatch e s1 w))))"

text \<open>The session object is the one the map holds, so whatever a step wrote to it is
  in the map when the route returns, also after a throw.\<close>

definition store :: "string \<Rightarrow> result \<Rightarrow> http_response \<times> notification list \<times> server" where
  "store sid r =
     (case r of (resp, sent, s, w) \<Rightarrow>
        (resp, sent, w\<lparr>sessions := AList.update sid s (sessions w)\<rparr>))"

text \<open>\<^verbatim>\<open>app.post('/api/chat')\<close>: the response, the notifier calls, the server's new state.\<close>

definition chat :: "env \<Rightarrow> request \<Rightarrow> server \<Rightarrow> http_response \<times> notification list \<times> server" where
  "chat e req w =
     (if sessionId req = [] then (BadRequest, [], w)
      else if sessionId req \<in> expiredSessions w then (Json expiredReply, [], w)
      else
        (case map_of (sessions w) (sessionId req) of
           None \<Rightarrow> store (sessionId req) (processMessage e (message req) (newSession e) w)
         | Some s \<Rightarrow>
             if now e - lastActive s > SESSION_EXPIRATION then
               (Json expiredReply, [],
                w\<lparr>sessions := AList.delete (sessionId req) (sessions w),
                  expiredSessions := insert (sessionId req) (expiredSessions w)\<rparr>)
             else
               store (sessionId req)
                 (processMessage e (message req) (s\<lparr>lastActive := now e\<rparr>) w)))"

subsection \<open>The periodic sweep and the other routes\<close>

text \<open>The first loop of \<^verbatim>\<open>cleanupExpiredSessions\<close>, over the entries of the map.\<close>

fun expireLoop :: "int \<Rightarrow> (string \<times> session) list \<Rightarrow> server \<Rightarrow> server" where
  "expireLoop t [] w = w"
| "expireLoop t ((sid, s) # rest) w =
     (if t - lastActive s > SESSION_EXPIRATION
      then expireLoop t rest
             (w\<lparr>sessions := AList.delete sid (sessions w),
                expiredSessions := insert sid (expiredSessions w)\<rparr>)
      else expireLoop t rest w)"

text \<open>The condition of the second loop: the id is taken out of \<^verbatim>\<open>expiredSessions\<close>.\<close>

definition dropsExpired :: "int \<Rightarrow> server \<Rightarrow> string \<Rightarrow> bool" where
  "dropsExpired t w sid \<longleftrightarrow>
     (case map_of (sessions w) sid of
        None \<Rightarrow> True
      | Some s \<Rightarrow> lastActive s \<noteq> 0 \<and> t - lastActive s > 5 * 60 * 1000)"

text \<open>\<^verbatim>\<open>cleanupExpiredSessions\<close>, run every minute; \<open>t\<close> is its \<^verbatim>\<open>Date.now()\<close>.\<close>

definition cleanupExpiredSessions :: "int \<Rightarrow> server \<Rightarrow> server" where
  "cleanupExpiredSessions t w =
     (let w1 = expireLoop t (sessions w) w
      in w1\<lparr>expiredSessions := Set.filter (\<lambda>sid. \<not> dropsExpired t w1 sid) (expiredSessions w1)\<rparr>)"

text \<open>\<^verbatim>\<open>/api/reset-session/:sessionId\<close>; \<open>seed\<close> is the content of sampleOrders, and the
  store is reset when the driver is connected.\<close>

definition resetSession :: "DeliveryStatus list \<Rightarrow> string \<Rightarrow> server \<Rightarrow> server" where
  "resetSession seed sid w =
     w\<lparr>sessions := AList.delete sid (sessions w),
       expiredSessions := expiredSessions w - {sid},
       db := (if connected (db w) then (db w)\<lparr>orders := seed\<rparr> else db w)\<rparr>"

text \<open>\<^verbatim>\<open>/api/test-session-expiration/:sessionId\<close>\<close>

definition testSessionExpiration :: "int \<Rightarrow> string \<Rightarrow> server \<Rightarrow> server" where
  "testSessionExpiration t sid w =
     (case map_of (sessions w) sid of
        None \<Rightarrow> w
      | Some s \<Rightarrow>
          w\<lparr>sessions :=
              AList.update sid (s\<lparr>lastActive := t - (SESSION_EXPIRATION + 60000)\<rparr>) (sessions w)\<rparr>)"

text \<open>The server when the module is loaded, over a given Order Store.\<close>

definition initialServer :: "database \<Rightarrow> server" where
  "initialServer d = \<lparr>sessions = [], expiredSessions = {}, assistant = INITIAL, db = d\<rparr>"

section \<open>Notions the properties are stated with\<close>

text \<open>
  The session object the steps of the route work on, when the request gets that far:
  a fresh session for an unknown id, the stored one with \<^verbatim>\<open>lastActive\<close> refreshed
  when it has not been idle for more than \<^const>\<open>SESSION_EXPIRATION\<close>, and none when
  it has.
\<close>

definition liveSession :: "env \<Rightarrow> server \<Rightarrow> string \<Rightarrow> session option" where
  "liveSession e w sid =
     (case map_of (sessions w) sid of
        None \<Rightarrow> Some (newSession e)
      | Some s \<Rightarrow>
          if now e - lastActive s > SESSION_EXPIRATION then None
          else Some (s\<lparr>lastActive := now e\<rparr>))"

text \<open>The states the server can be in: it starts with no session, and then serves
  chat requests, runs the sweep, serves the two other routes that touch sessions, and
  sees the Order Store change under it. Requests are taken one at a time: two requests
  interleaved at their \<^verbatim>\<open>await\<close>s are not modelled.\<close>

inductive reachable :: "server \<Rightarrow> bool" where
  start: "reachable (initialServer d)"
| chat_step: "reachable w \<Longrightarrow> reachable (snd (snd (chat e req w)))"
| sweep_step: "reachable w \<Longrightarrow> reachable (cleanupExpiredSessions t w)"
| reset_step: "reachable w \<Longrightarrow> reachable (resetSession seed sid w)"
| test_step: "reachable w \<Longrightarrow> reachable (testSessionExpiration t sid w)"
| store_step: "reachable w \<Longrightarrow> reachable (w\<lparr>db := d\<rparr>)"

text \<open>A session that holds reschedule options has passed OTP verification.\<close>

definition optionsNeedVerified :: "session \<Rightarrow> bool" where
  "optionsNeedVerified s \<longleftrightarrow> rescheduleOptions s = [] \<or> otpVerified s"

text \<open>The response texts of the source that are string literals with no order field
  spliced in.\<close>

definition fixedResponses :: "string list" where
  "fixedResponses =
     [''Your session has expired due to inactivity. Please start a new conversation to continue.'',
      ''Verification successful! You can now access your order details.'',
      ''Verification unsuccessful, try again later.'',
      ''Please enter the 6-digit OTP sent to your WhatsApp number.'',
      ''For your security, please enter the 6-digit OTP sent to your WhatsApp number to access your order details.'',
      ''Please complete OTP verification to access your order details.'',
      ''I'm having some trouble right now. Could you try again in a moment?'',
      ''How can I help with your delivery today?'',
      ''I'd be happy to help track your order! Could you share your tracking number with me?'',
      ''Hello! How can I help with your delivery?'',
      ''Thank you! Have a great day!'',
      ''How can I assist with your delivery?'']"

text \<open>What no step of the route touches: the map of sessions, the set of expired ids,
  and the session's \<^verbatim>\<open>lastActive\<close>.\<close>

definition untouched :: "session \<Rightarrow> server \<Rightarrow> result \<Rightarrow> bool" where
  "untouched s w r \<longleftrightarrow>
     (case r of (resp, sent, s', w') \<Rightarrow>
        sessions w' = sessions w \<and> expiredSessions w' = expiredSessions w \<and>
        lastActive s' = lastActive s)"

text \<open>A response that shows nothing of an order.\<close>

definition orderFree :: "http_response \<Rightarrow> bool" where
  "orderFree resp \<longleftrightarrow>
     (case resp of
        Json r \<Rightarrow>
          res_orderDetails r = None \<and> res_showDetails r \<noteq> Some True \<and>
          res_rescheduleOptions r = None \<and> res_response r \<in> set fixedResponses
      | _ \<Rightarrow> True)"

text \<open>Every stored session that holds reschedule options is verified.\<close>

definition serverInv :: "server \<Rightarrow> bool" where
  "serverInv w \<longleftrightarrow> (\<forall>sid s. map_of (sessions w) sid = Some s \<longrightarrow> optionsNeedVerified s)"

text \<open>A result whose reply is not marked \<^verbatim>\<open>sessionExpired\<close>.\<close>

definition notExpiryReply :: "result \<Rightarrow> bool" where
  "notExpiryReply r \<longleftrightarrow>
     (case r of (resp, sent, s', w') \<Rightarrow>
        (case resp of Json r \<Rightarrow> res_sessionExpired r = None | _ \<Rightarrow> True))"



text \<open>Every stored session has a non-empty id that is not in the known-expired set.\<close>

definition storedLive :: "server \<Rightarrow> bool" where
  "storedLive w \<longleftrightarrow>
     (\<forall>sid s. map_of (sessions w) sid = Some s \<longrightarrow> sid \<noteq> [] \<and> sid \<notin> expiredSessions w)"

text \<open>A result whose reply does not offer reschedule options.\<close>

definition noOffer :: "result \<Rightarrow> bool" where
  "noOffer r \<longleftrightarrow>
     (case r of (resp, sent, s', w') \<Rightarrow>
        (case resp of Json r \<Rightarrow> res_requiresReschedule r \<noteq> Some True | _ \<Rightarrow> True))"

text \<open>The local time \<open>x\<close> is the local time of a \<^verbatim>\<open>Date\<close>: taking it to UTC gives a time
  in the range of \<^verbatim>\<open>Date\<close>, whose local time is \<open>x\<close> again (the zone does not skip \<open>x\<close>).\<close>

definition representable :: "env \<Rightarrow> int \<Rightarrow> bool" where
  "representable e x \<longleftrightarrow> \<bar>utc e x\<bar> \<le> 8640000000000000 \<and> localTime e (utc e x) = x"

text \<open>The zone's offset from UTC varies by less than 15 hours.\<close>

definition steadyZone :: "env \<Rightarrow> bool" where
  "steadyZone e \<longleftrightarrow> (\<forall>x y. \<bar>localTZA e x False - localTZA e y False\<bar> < 15 * msPerHour)"

text \<open>The local time \<open>h\<close> o'clock on the \<open>i\<close>-th local day after that of the time \<open>t\<close>.\<close>

definition slotLocalTime :: "env \<Rightarrow> int \<Rightarrow> int \<Rightarrow> int \<Rightarrow> int" where
  "slotLocalTime e t i h = (localDay e t + i) * msPerDay + h * msPerHour"


section \<open>Concrete inputs\<close>

text \<open>A formatter that prints the time value.\<close>

definition printDate :: "Date \<Rightarrow> string" where
  "printDate d = (case d of InvalidDate \<Rightarrow> ''Invalid Date'' | Millis t \<Rightarrow> toString t)"

text \<open>An environment: a clock at one second, \<^verbatim>\<open>Math.random()\<close> = 1/2 (the OTP 550000),
  a resolver that returns no tool call, Twilio configured and accepting, the time zone
  UTC+05:30 all year, and formatters that print the time value.\<close>

definition env0 :: env where
  "env0 =
     \<lparr>now = 1000, nowOtpCheck = 1000, nowOtpIssue = 1000, nowDate = 1000,
      mathRandom = 4503599627370496, llm = NoToolCall,
      accountSid = ''AC0'', authToken = ''secret'', twilioPhone = ''+15550100'',
      twilioAccepts = True, localTZA = (\<lambda>t isUTC. 19800000),
      shortDate = printDate, localeDate = printDate, localeDateTime = printDate\<rparr>"

text \<open>Two orders after sampleOrders.ts, and one with no phone number.\<close>

definition orderInTransit :: DeliveryStatus where
  "orderInTransit =
     \<lparr>awb = ''AWB789012'', status = InTransit, lastUpdate = Millis 0,
      estimatedDelivery = Some (Millis 172800000), scheduledDelivery = None, delayReason = None,
      customerName = Some ''Jane Smith'', customerPhone = Some ''+1987654321'',
      rescheduled = False\<rparr>"

definition orderDelivered :: DeliveryStatus where
  "orderDelivered =
     \<lparr>awb = ''AWB123456'', status = Delivered, lastUpdate = Millis 0,
      estimatedDelivery = Some (Millis 0), scheduledDelivery = None, delayReason = None,
      customerName = Some ''John Doe'', customerPhone = Some ''+1234567890'',
      rescheduled = False\<rparr>"

definition orderNoPhone :: DeliveryStatus where
  "orderNoPhone =
     \<lparr>awb = ''AWB555555'', status = Shipped, lastUpdate = Millis 0,
      estimatedDelivery = Some (Millis 172800000), scheduledDelivery = None, delayReason = None,
      customerName = None, customerPhone = None, rescheduled = False\<rparr>"

definition db0 :: database where
  "db0 = \<lparr>orders = [orderDelivered, orderInTransit, orderNoPhone], connected = True\<rparr>"

text \<open>A conversation of session \<open>s1\<close>: the tracking id, the OTP, a reschedule request,
  the choice of slot 2, and a message the resolver answers with no tool call. Each
  state below is the one the request before it leaves.\<close>

definition say :: "string \<Rightarrow> request" where
  "say m = \<lparr>message = Some m, sessionId = ''s1''\<rparr>"

definition session1 :: session where
  "session1 =
     \<lparr>conversationState = AWAITING_OTP, currentOrder = Some orderInTransit,
      rescheduleOptions = [], lastActive = 1000, otp = Some ''550000'',
      otpTimestamp = Some 1000, otpVerified = False\<rparr>"

definition server1 :: server where
  "server1 = \<lparr>sessions = [(''s1'', session1)], expiredSessions = {}, assistant = INITIAL, db = db0\<rparr>"

definition env2 :: env where
  "env2 = env0\<lparr>now := 31000, nowOtpCheck := 31000\<rparr>"

definition session2 :: session where
  "session2 = session1\<lparr>conversationState := ORDER_FOUND, otpVerified := True, lastActive := 31000\<rparr>"

definition server2 :: server where
  "server2 = server1\<lparr>sessions := [(''s1'', session2)]\<rparr>"

definition env3 :: env where
  "env3 = env0\<lparr>now := 61000, llm := ToolCall ''get_order_info'' (Args (Some ''reschedule'') None)\<rparr>"

definition options3 :: "RescheduleOption list" where
  "options3 =
     [\<lparr>date = Millis 286200000, display = ''286200000 | Afternoon''\<rparr>,
      \<lparr>date = Millis 390600000, display = ''390600000 | Evening''\<rparr>,
      \<lparr>date = Millis 444600000, display = ''444600000 | Morning''\<rparr>]"

definition session3 :: session where
  "session3 =
     session2\<lparr>conversationState := RESCHEDULE_OPTIONS, rescheduleOptions := options3,
              lastActive := 61000\<rparr>"

definition server3 :: server where
  "server3 = server2\<lparr>sessions := [(''s1'', session3)], assistant := RESCHEDULE_OPTIONS\<rparr>"

definition env4 :: env where
  "env4 = env0\<lparr>now := 91000, nowDate := 91000\<rparr>"

definition orderRescheduled :: DeliveryStatus where
  "orderRescheduled =
     orderInTransit\<lparr>scheduledDelivery := Some (Millis 390600000), status := Rescheduled,
                    rescheduled := True, lastUpdate := Millis 91000\<rparr>"

definition session4 :: session where
  "session4 =
     session3\<lparr>conversationState := ORDER_FOUND, rescheduleOptions := [],
              currentOrder := Some orderRescheduled, lastActive := 91000\<rparr>"

definition server4 :: server where
  "server4 =
     server3\<lparr>sessions := [(''s1'', session4)],
             db := \<lparr>orders = [orderDelivered, orderRescheduled, orderNoPhone], connected = True\<rparr>\<rparr>"

definition env5 :: env where
  "env5 = env0\<lparr>now := 121000\<rparr>"

text \<open>The server after the reschedule request, with the order gone from the store.\<close>

definition serverOrderGone :: server where
  "serverOrderGone = server3\<lparr>db := \<lparr>orders = [orderDelivered, orderNoPhone], connected = True\<rparr>\<rparr>"



text \<open>The tracking id sent at one second, with the OTP issued half a second later; and
  the right code sent 119.7 seconds after that.\<close>

definition envIssue :: env where
  "envIssue = env0\<lparr>nowOtpIssue := 1500\<rparr>"

definition sessionIssued :: session where
  "sessionIssued = session1\<lparr>otpTimestamp := Some 1500\<rparr>"

definition serverIssued :: server where
  "serverIssued = server1\<lparr>sessions := [(''s1'', sessionIssued)]\<rparr>"

definition envLate :: env where
  "envLate = env0\<lparr>now := 121200, nowOtpCheck := 121200\<rparr>"

text \<open>
  Two time zones. New York in 2024: UTC-5, and UTC-4 from 10 March 07:00 UTC to
  3 November 06:00 UTC. Apia at the end of 2011: UTC-10 until 30 December 10:00 UTC,
  then UTC+14, so that the local calendar has no 30 December. A local time that is
  skipped takes the offset before the change, one that is repeated the earlier.
\<close>

definition newYork2024 :: "int \<Rightarrow> bool \<Rightarrow> int" where
  "newYork2024 t isUTC =
     (if isUTC then (if 1710054000000 \<le> t \<and> t < 1730613600000 then - 14400000 else - 18000000)
      else (if 1710039600000 \<le> t \<and> t < 1730599200000 then - 14400000 else - 18000000))"

definition apia2011 :: "int \<Rightarrow> bool \<Rightarrow> int" where
  "apia2011 t isUTC =
     (if isUTC then (if t < 1325239200000 then - 36000000 else 50400000)
      else (if t < 1325289600000 then - 36000000 else 50400000))"

definition envNewYork :: env where
  "envNewYork = env0\<lparr>localTZA := newYork2024\<rparr>"

definition envApia :: env where
  "envApia = env0\<lparr>localTZA := apia2011\<rparr>"


definition envDetails :: env where
  "envDetails = env0\<lparr>now := 61000, llm := ToolCall ''get_order_info'' (Args (Some ''details'') None)\<rparr>"





section \<open>Evaluating the route on the concrete inputs\<close>

lemmas step_defs =
  chat_def store_def processMessage_def otpVerification_def slotSelection_def awbExtraction_def
  verificationGate_def intentDispatch_def handleUserMessage_def handleLlmRequest_def
  handleOrderAction_def handleGreeting_def handleFarewell_def llmResponse_def mkReply_def
  newSession_def otpMatches_def truthy_def SESSION_EXPIRATION_def getOrderStatus_def
  rescheduleOrder_def canReschedule_def otpMessage_def otpRequestReply_def
  rangeReply_def failedReply_def rescheduledReply_def expiredReply_def today_def
  notify_def sendWhatsAppUpdate_def formatWhatsAppMessage_def printDate_def

lemmas string_defs =
  extractAWB_def awbMatchesAt_def toUpperCase_def upperChar_def isSixDigits_def isWordChar_def
  isDigit_def isSpace_def trim_def parseInt_def numeral_of_def digitValue_def toString_def
  decimal.simps digitChar_def

lemmas date_defs =
  addDays_def setHours_def localDay_def localTimeOfDay_def localTime_def utc_def timeClip_def
  msPerDay_def msPerHour_def

lemmas fixture_defs =
  env0_def env2_def env3_def env4_def env5_def say_def db0_def orderInTransit_def
  orderDelivered_def orderNoPhone_def orderRescheduled_def session1_def session2_def
  session3_def session4_def server1_def server2_def server3_def server4_def options3_def
  initialServer_def

lemma roundToDouble_half:
  "roundToDouble (100000 * 2 ^ 53 + roundToDouble (4503599627370496 * 900000)) div 2 ^ 53 = 550000"
  by (simp add: roundToDouble_def bitLength.simps Let_def)

lemma toString_550000: "toString 550000 = ''550000''"
  by (simp add: toString_def decimal.simps digitChar_def)

lemma generateOtp_half: "mathRandom e = 4503599627370496 \<Longrightarrow> generateOtp e = ''550000''"
  by (simp only: generateOtp_def roundToDouble_half toString_550000)

text \<open>A value of \<^verbatim>\<open>Math.random()\<close> where the rounding of the product and of the sum
  moves the result: the exact value has floor 550001, the doubles give 550002.\<close>

lemma roundToDouble_up:
  "roundToDouble (100000 * 2 ^ 53 + roundToDouble (4503619643368839 * 900000)) div 2 ^ 53 = 550002 \<and>
   (100000 * 2 ^ 53 + 4503619643368839 * 900000) div 2 ^ 53 = (550001 :: int)"
  by (simp add: roundToDouble_def bitLength.simps Let_def)

lemma toString_550002: "toString 550002 = ''550002''"
  by (simp add: toString_def decimal.simps digitChar_def)

lemma generateOtp_up: "mathRandom e = 4503619643368839 \<Longrightarrow> generateOtp e = ''550002''"
  by (simp only: generateOtp_def roundToDouble_up toString_550002)

lemma step1:
  "chat env0 (say ''track awb789012'') (initialServer db0) =
     (Json otpRequestReply, [notify env0 ''+1987654321'' (otpMessage ''550000'')], server1)"
  by (simp add: step_defs string_defs fixture_defs generateOtp_half)

lemma step2:
  "chat env2 (say '' 550000 '') server1 =
     (Json ((mkReply ''Verification successful! You can now access your order details.''
                              ORDER_FOUND)\<lparr>res_requiresOtp := Some False\<rparr>), [], server2)"
  by (simp add: step_defs string_defs fixture_defs)

lemma step3:
  "snd (chat env3 (say ''reschedule'') server2) = ([], server3)"
  by (simp add: step_defs string_defs fixture_defs generateRescheduleOptions_def
      generateLoop.simps rescheduleOption_def date_defs Let_def)

lemma step4:
  "snd (chat env4 (say ''2'') server3) =
     ([notify env4 ''+1987654321'' (formatWhatsAppMessage env4 orderRescheduled)], server4)"
  by (simp add: step_defs string_defs fixture_defs)

lemma step5:
  "chat env5 (say ''thanks'') server4 =
     (Json (mkReply ''How can I help with your delivery today?'' RESCHEDULE_OPTIONS), [],
      server4\<lparr>sessions := [(''s1'', session4\<lparr>conversationState := RESCHEDULE_OPTIONS, lastActive := 121000\<rparr>)]\<rparr>)"
  by (simp add: step_defs string_defs fixture_defs)

lemma reachable_server1: "reachable server1"
  using reachable.chat_step [OF reachable.start, of env0 "say ''track awb789012''" db0]
  by (simp add: step1)

lemma reachable_server2: "reachable server2"
  using reachable.chat_step [OF reachable_server1, of env2 "say '' 550000 ''"]
  by (simp add: step2)

lemma reachable_server3: "reachable server3"
  using reachable.chat_step [OF reachable_server2, of env3 "say ''reschedule''"]
  by (simp add: step3)

lemma reachable_server4: "reachable server4"
  using reachable.chat_step [OF reachable_server3, of env4 "say ''2''"]
  by (simp add: step4)

section \<open>What the steps of the route leave alone\<close>


lemma chat_live:
  assumes "sessionId req \<noteq> []" and "sessionId req \<notin> expiredSessions w"
    and "liveSession e w (sessionId req) = Some s"
  shows "chat e req w = store (sessionId req) (processMessage e (message req) s w)"
  using assms by (auto simp: chat_def liveSession_def split: option.splits if_splits)

lemma map_of_store:
  "store sid (resp, sent, s, w) = (resp', sent', w') \<Longrightarrow>
     resp' = resp \<and> sent' = sent \<and> map_of (sessions w') sid = Some s \<and>
     expiredSessions w' = expiredSessions w \<and> assistant w' = assistant w \<and> db w' = db w"
  by (auto simp: store_def update_conv')

lemma otpVerification_untouched:
  "otpVerification e msg s w = Some r \<Longrightarrow> untouched s w r"
  by (auto simp: otpVerification_def untouched_def split: if_splits option.splits)

lemma slotSelection_untouched:
  "slotSelection e msg s w = Some r \<Longrightarrow> untouched s w r"
  by (auto simp: slotSelection_def untouched_def Let_def
      split: if_splits option.splits prod.splits bool.splits sum.splits)

lemma awbExtraction_untouched:
  "awbExtraction e msg s w = Inl r \<Longrightarrow> untouched s w r"
  "awbExtraction e msg s w = Inr s1 \<Longrightarrow> lastActive s1 = lastActive s"
  by (auto simp: awbExtraction_def untouched_def Let_def
      split: if_splits option.splits sum.splits)

lemma verificationGate_untouched:
  "verificationGate s w = Some r \<Longrightarrow> untouched s w r"
  by (auto simp: verificationGate_def untouched_def split: if_splits)

lemma intentDispatch_untouched: "untouched s w (intentDispatch e s w)"
  by (auto simp: intentDispatch_def untouched_def Let_def split: prod.splits)

lemma processMessage_untouched: "untouched s w (processMessage e msg s w)"
proof (cases "otpVerification e msg s w")
  case (Some r)
  then show ?thesis by (simp add: processMessage_def otpVerification_untouched)
next
  case otp: None
  show ?thesis
  proof (cases "slotSelection e msg s w")
    case (Some r)
    then show ?thesis using otp by (simp add: processMessage_def slotSelection_untouched)
  next
    case slot: None
    show ?thesis
    proof (cases "awbExtraction e msg s w")
      case (Inl r)
      then show ?thesis using otp slot by (simp add: processMessage_def awbExtraction_untouched)
    next
      case (Inr s1)
      then have la: "lastActive s1 = lastActive s" by (rule awbExtraction_untouched)
      show ?thesis
      proof (cases "verificationGate s1 w")
        case (Some r)
        then have "untouched s1 w r" by (rule verificationGate_untouched)
        then show ?thesis using otp slot Inr Some la
          by (simp add: processMessage_def untouched_def split: prod.splits)
      next
        case None
        have "untouched s1 w (intentDispatch e s1 w)" by (rule intentDispatch_untouched)
        then show ?thesis using otp slot Inr None la
          by (simp add: processMessage_def untouched_def split: prod.splits)
      qed
    qed
  qed
qed

section \<open>An invariant of the sessions\<close>

lemmas reply_defs =
  mkReply_def expiredReply_def rangeReply_def failedReply_def rescheduledReply_def
  otpRequestReply_def

subsection \<open>The flag \<^verbatim>\<open>otpVerified\<close> guards the reschedule options\<close>

lemma otpVerification_inv:
  "otpVerification e msg s w = Some (resp, sent, s', w') \<Longrightarrow> optionsNeedVerified s \<Longrightarrow>
     optionsNeedVerified s'"
  by (auto simp: otpVerification_def optionsNeedVerified_def split: if_splits option.splits)

lemma slotSelection_inv:
  "slotSelection e msg s w = Some (resp, sent, s', w') \<Longrightarrow> optionsNeedVerified s \<Longrightarrow>
     optionsNeedVerified s'"
  by (auto simp: slotSelection_def optionsNeedVerified_def Let_def
      split: if_splits option.splits prod.splits bool.splits sum.splits)

lemma awbExtraction_inv:
  "awbExtraction e msg s w = Inl (resp, sent, s', w') \<Longrightarrow> optionsNeedVerified s \<Longrightarrow>
     optionsNeedVerified s'"
  "awbExtraction e msg s w = Inr s1 \<Longrightarrow> optionsNeedVerified s \<Longrightarrow> optionsNeedVerified s1"
  by (auto simp: awbExtraction_def optionsNeedVerified_def Let_def
      split: if_splits option.splits sum.splits)

lemma verificationGate_inv:
  "verificationGate s w = Some (resp, sent, s', w') \<Longrightarrow> s' = s"
  by (auto simp: verificationGate_def split: if_splits)

lemma verificationGate_None:
  "verificationGate s w = None \<Longrightarrow> currentOrder s = None \<or> otpVerified s"
  by (auto simp: verificationGate_def split: if_splits)

lemma intentDispatch_inv:
  "intentDispatch e s w = (resp, sent, s', w') \<Longrightarrow> currentOrder s = None \<or> otpVerified s \<Longrightarrow>
     optionsNeedVerified s \<Longrightarrow> optionsNeedVerified s'"
  by (auto simp: intentDispatch_def optionsNeedVerified_def Let_def
      split: if_splits option.splits prod.splits)

lemma processMessage_inv:
  assumes "processMessage e msg s w = (resp, sent, s', w')" and "optionsNeedVerified s"
  shows "optionsNeedVerified s'"
proof (cases "otpVerification e msg s w")
  case (Some r)
  then show ?thesis using assms by (auto simp: processMessage_def dest: otpVerification_inv)
next
  case otp: None
  show ?thesis
  proof (cases "slotSelection e msg s w")
    case (Some r)
    then show ?thesis using otp assms by (auto simp: processMessage_def dest: slotSelection_inv)
  next
    case slot: None
    show ?thesis
    proof (cases "awbExtraction e msg s w")
      case (Inl r)
      then show ?thesis using otp slot assms
        by (auto simp: processMessage_def dest: awbExtraction_inv(1))
    next
      case (Inr s1)
      then have inv1: "optionsNeedVerified s1" using assms(2) by (rule awbExtraction_inv(2))
      show ?thesis
      proof (cases "verificationGate s1 w")
        case (Some r)
        then show ?thesis using otp slot Inr assms(1) inv1
          by (auto simp: processMessage_def dest: verificationGate_inv)
      next
        case None
        then have "currentOrder s1 = None \<or> otpVerified s1" by (rule verificationGate_None)
        moreover have "intentDispatch e s1 w = (resp, sent, s', w')"
          using otp slot Inr None assms(1) by (simp add: processMessage_def)
        ultimately show ?thesis using inv1 by (blast intro: intentDispatch_inv)
      qed
    qed
  qed
qed

lemma store_processMessage_inv:
  assumes "serverInv w" and "optionsNeedVerified s"
  shows "serverInv (snd (snd (store sid (processMessage e msg s w))))"
proof -
  obtain resp sent s' w' where pm: "processMessage e msg s w = (resp, sent, s', w')"
    by (metis prod_cases4)
  have "untouched s w (resp, sent, s', w')" using processMessage_untouched [of s w e msg] pm by simp
  then have same: "sessions w' = sessions w" by (simp add: untouched_def)
  have "optionsNeedVerified s'" using pm assms(2) by (rule processMessage_inv)
  then show ?thesis using assms(1) same
    by (auto simp: pm store_def serverInv_def update_conv')
qed

lemma map_of_expireLoop:
  "map_of (sessions (expireLoop t xs w)) sid = Some s \<Longrightarrow> map_of (sessions w) sid = Some s"
proof (induction xs arbitrary: w)
  case Nil
  then show ?case by simp
next
  case (Cons x xs)
  obtain k v where x: "x = (k, v)" by (cases x)
  show ?case
  proof (cases "t - lastActive v > SESSION_EXPIRATION")
    case True
    let ?w1 = "w\<lparr>sessions := AList.delete k (sessions w),
                 expiredSessions := insert k (expiredSessions w)\<rparr>"
    have "expireLoop t (x # xs) w = expireLoop t xs ?w1"
      using True x by simp
    with Cons.prems have "map_of (sessions (expireLoop t xs ?w1)) sid = Some s"
      by simp
    then have "map_of (sessions ?w1) sid = Some s"
      by (rule Cons.IH)
    then show ?thesis by (simp add: delete_conv' split: if_splits)
  next
    case False
    then show ?thesis using Cons x by simp
  qed
qed

lemma chat_inv: "serverInv w \<Longrightarrow> serverInv (snd (snd (chat e req w)))"
proof -
  assume inv: "serverInv w"
  have fresh: "optionsNeedVerified (newSession e)"
    by (simp add: optionsNeedVerified_def newSession_def)
  have live: "optionsNeedVerified (s\<lparr>lastActive := now e\<rparr>)"
    if "map_of (sessions w) (sessionId req) = Some s" for s
    using inv that by (auto simp: serverInv_def optionsNeedVerified_def)
  have gone: "serverInv (w\<lparr>sessions := AList.delete k (sessions w), expiredSessions := E\<rparr>)" for k E
    using inv by (auto simp: serverInv_def delete_conv' split: if_splits)
  show ?thesis
    using inv fresh live gone
    by (auto simp: chat_def intro!: store_processMessage_inv split: option.splits)
qed

lemma reachable_inv: "reachable w \<Longrightarrow> serverInv w"
proof (induction rule: reachable.induct)
  case (start d)
  then show ?case by (simp add: serverInv_def initialServer_def)
next
  case (chat_step w e req)
  then show ?case by (simp add: chat_inv)
next
  case (sweep_step w t)
  then show ?case
    by (auto simp: serverInv_def cleanupExpiredSessions_def Let_def dest: map_of_expireLoop)
next
  case (reset_step w seed sid)
  then show ?case by (auto simp: serverInv_def resetSession_def delete_conv' split: if_splits)
next
  case (test_step w t sid)
  then show ?case
    by (auto simp: serverInv_def testSessionExpiration_def update_conv' optionsNeedVerified_def
        split: option.splits if_splits)
next
  case (store_step w d)
  then show ?case by (simp add: serverInv_def)
qed

subsection \<open>Stored sessions are not marked expired\<close>

lemma storedLive_expire:
  "storedLive w \<Longrightarrow>
     storedLive (w\<lparr>sessions := AList.delete k (sessions w),
                  expiredSessions := insert k (expiredSessions w)\<rparr>)"
  by (auto simp: storedLive_def delete_conv' split: if_splits)

lemma storedLive_store:
  assumes "storedLive w" and "sid \<noteq> []" and "sid \<notin> expiredSessions w"
  shows "storedLive (snd (snd (store sid (processMessage e msg s w))))"
proof -
  obtain resp sent s' w' where pm: "processMessage e msg s w = (resp, sent, s', w')"
    by (metis prod_cases4)
  have "untouched s w (resp, sent, s', w')" using processMessage_untouched [of s w e msg] pm by simp
  then have same: "sessions w' = sessions w" "expiredSessions w' = expiredSessions w"
    by (simp_all add: untouched_def)
  show ?thesis using assms same
    by (auto simp: pm store_def storedLive_def update_conv' split: if_splits)
qed

lemma storedLive_chat: "storedLive w \<Longrightarrow> storedLive (snd (snd (chat e req w)))"
  by (auto simp: chat_def intro!: storedLive_store storedLive_expire split: option.splits)

lemma storedLive_expireLoop: "storedLive w \<Longrightarrow> storedLive (expireLoop t xs w)"
proof (induction xs arbitrary: w)
  case Nil
  then show ?case by simp
next
  case (Cons x xs)
  obtain k v where x: "x = (k, v)" by (cases x)
  show ?case
  proof (cases "t - lastActive v > SESSION_EXPIRATION")
    case True
    let ?w1 = "w\<lparr>sessions := AList.delete k (sessions w),
                 expiredSessions := insert k (expiredSessions w)\<rparr>"
    have "storedLive ?w1" using Cons.prems by (rule storedLive_expire)
    then have "storedLive (expireLoop t xs ?w1)" by (rule Cons.IH)
    then show ?thesis using True x by simp
  next
    case False
    then show ?thesis using Cons x by simp
  qed
qed

lemma reachable_storedLive: "reachable w \<Longrightarrow> storedLive w"
proof (induction rule: reachable.induct)
  case (start d)
  then show ?case by (simp add: storedLive_def initialServer_def)
next
  case (chat_step w e req)
  then show ?case by (simp add: storedLive_chat)
next
  case (sweep_step w t)
  then have "storedLive (expireLoop t (sessions w) w)" by (simp add: storedLive_expireLoop)
  then show ?case by (auto simp: storedLive_def cleanupExpiredSessions_def Let_def)
next
  case (reset_step w seed sid)
  then show ?case by (auto simp: storedLive_def resetSession_def delete_conv' split: if_splits)
next
  case (test_step w t sid)
  then show ?case
    by (auto simp: storedLive_def testSessionExpiration_def update_conv'
        split: option.splits if_splits)
next
  case (store_step w d)
  then show ?case by (simp add: storedLive_def)
qed

lemma reachable_stored:
  "reachable w \<Longrightarrow> map_of (sessions w) sid = Some s \<Longrightarrow> sid \<noteq> [] \<and> sid \<notin> expiredSessions w"
  using reachable_storedLive by (simp add: storedLive_def)

lemma sweep_empties_known_expired:
  assumes "storedLive w"
  shows "expiredSessions (cleanupExpiredSessions t w) = {}"
proof -
  let ?w1 = "expireLoop t (sessions w) w"
  have "storedLive ?w1" using assms by (rule storedLive_expireLoop)
  then have "dropsExpired t ?w1 sid" if "sid \<in> expiredSessions ?w1" for sid
    using that by (cases "map_of (sessions ?w1) sid") (auto simp: dropsExpired_def storedLive_def)
  then show ?thesis by (auto simp: cleanupExpiredSessions_def Let_def)
qed


subsection \<open>Replies to a session that is not verified\<close>

lemma otpVerification_orderFree:
  "otpVerification e msg s w = Some (resp, sent, s', w') \<Longrightarrow> orderFree resp"
  by (auto simp: otpVerification_def orderFree_def fixedResponses_def mkReply_def
      split: if_splits option.splits)

lemma slotSelection_no_options:
  "rescheduleOptions s = [] \<Longrightarrow> slotSelection e msg s w = None"
  by (simp add: slotSelection_def)

lemma awbExtraction_orderFree:
  "awbExtraction e msg s w = Inl (resp, sent, s', w') \<Longrightarrow> orderFree resp"
  by (auto simp: awbExtraction_def orderFree_def fixedResponses_def mkReply_def
      otpRequestReply_def Let_def split: if_splits option.splits sum.splits)

lemma awbExtraction_unverified:
  "awbExtraction e msg s w = Inr s1 \<Longrightarrow> \<not> otpVerified s \<Longrightarrow> s1 = s"
  by (auto simp: awbExtraction_def Let_def split: if_splits option.splits sum.splits)

lemma verificationGate_orderFree:
  "verificationGate s w = Some (resp, sent, s', w') \<Longrightarrow> orderFree resp"
  by (auto simp: verificationGate_def orderFree_def fixedResponses_def mkReply_def
      split: if_splits)

lemma handleLlmRequest_no_order:
  "response (handleLlmRequest outcome st None) \<in> set fixedResponses \<and>
   showDetails (handleLlmRequest outcome st None) = None \<and>
   requiresReschedule (handleLlmRequest outcome st None) = None"
  by (auto simp: handleLlmRequest_def handleOrderAction_def handleGreeting_def
      handleFarewell_def llmResponse_def fixedResponses_def
      split: llm_result.splits tool_args.splits)

lemma intentDispatch_orderFree:
  "currentOrder s = None \<Longrightarrow> intentDispatch e s w = (resp, sent, s', w') \<Longrightarrow> orderFree resp"
  using handleLlmRequest_no_order [of "llm e" "assistant w"]
  by (auto simp: intentDispatch_def handleUserMessage_def orderFree_def mkReply_def Let_def)

lemma processMessage_orderFree:
  assumes "processMessage e msg s w = (resp, sent, s', w')"
    and "\<not> otpVerified s" and "rescheduleOptions s = []"
  shows "orderFree resp"
proof (cases "otpVerification e msg s w")
  case (Some r)
  then show ?thesis using assms(1) by (auto simp: processMessage_def dest: otpVerification_orderFree)
next
  case otp: None
  have slot: "slotSelection e msg s w = None" using assms(3) by (rule slotSelection_no_options)
  show ?thesis
  proof (cases "awbExtraction e msg s w")
    case (Inl r)
    then show ?thesis using otp slot assms(1)
      by (auto simp: processMessage_def dest: awbExtraction_orderFree)
  next
    case (Inr s1)
    then have s1: "s1 = s" using assms(2) by (rule awbExtraction_unverified)
    show ?thesis
    proof (cases "verificationGate s w")
      case (Some r)
      then show ?thesis using otp slot Inr s1 assms(1)
        by (auto simp: processMessage_def dest: verificationGate_orderFree)
    next
      case None
      then have "currentOrder s = None" using assms(2) by (auto dest: verificationGate_None)
      moreover have "intentDispatch e s w = (resp, sent, s', w')"
        using otp slot Inr s1 None assms(1) by (simp add: processMessage_def)
      ultimately show ?thesis by (rule intentDispatch_orderFree)
    qed
  qed
qed

text \<open>
  C1. Whenever the session a message belongs to has \<^verbatim>\<open>otpVerified = false\<close> (a session
  the server holds, or one the message creates), the reply to that message carries no
  order detail: no \<^verbatim>\<open>orderDetails\<close> payload, no \<^verbatim>\<open>showDetails\<close>, no reschedule options,
  and a response text that is one of the fixed sentences of the source, with no
  order field in it.
\<close>

theorem unverified_session_sees_no_order_details:
  assumes "reachable w"
    and "case map_of (sessions w) (sessionId req) of None \<Rightarrow> True | Some s \<Rightarrow> \<not> otpVerified s"
    and "chat e req w = (Json r, sent, w')"
  shows "res_orderDetails r = None \<and> res_showDetails r \<noteq> Some True \<and>
         res_rescheduleOptions r = None \<and> res_response r \<in> set fixedResponses"
proof -
  have inv: "serverInv w" using assms(1) by (rule reachable_inv)
  have expired: "orderFree (Json expiredReply)"
    by (simp add: orderFree_def expiredReply_def mkReply_def fixedResponses_def)
  have "orderFree (Json r)"
  proof (cases "sessionId req = [] \<or> sessionId req \<in> expiredSessions w")
    case True
    then show ?thesis using assms(3) expired by (auto simp: chat_def split: if_splits)
  next
    case False
    show ?thesis
    proof (cases "map_of (sessions w) (sessionId req)")
      case None
      then have "store (sessionId req) (processMessage e (message req) (newSession e) w) =
                   (Json r, sent, w')"
        using False assms(3) by (simp add: chat_def)
      then obtain s' w1 where "processMessage e (message req) (newSession e) w = (Json r, sent, s', w1)"
        by (auto simp: store_def split: prod.splits)
      then show ?thesis
        by (rule processMessage_orderFree) (simp_all add: newSession_def)
    next
      case (Some s)
      then have unverified: "\<not> otpVerified s" using assms(2) by simp
      then have none: "rescheduleOptions s = []"
        using inv Some by (auto simp: serverInv_def optionsNeedVerified_def)
      show ?thesis
      proof (cases "now e - lastActive s > SESSION_EXPIRATION")
        case True
        then show ?thesis using False Some assms(3) expired by (auto simp: chat_def)
      next
        case within: False
        then have "store (sessionId req) (processMessage e (message req) (s\<lparr>lastActive := now e\<rparr>) w) =
                     (Json r, sent, w')"
          using False Some assms(3) by (simp add: chat_def)
        then obtain s' w1 where
          "processMessage e (message req) (s\<lparr>lastActive := now e\<rparr>) w = (Json r, sent, s', w1)"
          by (auto simp: store_def split: prod.splits)
        then show ?thesis
          by (rule processMessage_orderFree) (simp_all add: unverified none)
      qed
    qed
  qed
  then show ?thesis by (simp add: orderFree_def)
qed

theorem unverified_session_sees_no_order_details_witness:
  "reachable server1 \<and>
   (case map_of (sessions server1) (sessionId (say ''show my order details'')) of
      None \<Rightarrow> True | Some s \<Rightarrow> \<not> otpVerified s) \<and>
   chat (env2\<lparr>llm := ToolCall ''get_order_info'' (Args (Some ''details'') None)\<rparr>)
     (say ''show my order details'') server1 =
     (Json ((mkReply ''Please enter the 6-digit OTP sent to your WhatsApp number.'' AWAITING_OTP)
              \<lparr>res_requiresOtp := Some True\<rparr>),
      [], server1\<lparr>sessions := [(''s1'', session1\<lparr>lastActive := 31000\<rparr>)]\<rparr>) \<and>
   res_orderDetails ((mkReply ''Please enter the 6-digit OTP sent to your WhatsApp number.''
                        AWAITING_OTP)\<lparr>res_requiresOtp := Some True\<rparr>) = None \<and>
   res_response ((mkReply ''Please enter the 6-digit OTP sent to your WhatsApp number.''
                    AWAITING_OTP)\<lparr>res_requiresOtp := Some True\<rparr>) \<in> set fixedResponses"
proof -
  have unverified:
    "case map_of (sessions server1) (sessionId (say ''show my order details'')) of
       None \<Rightarrow> True | Some s \<Rightarrow> \<not> otpVerified s"
    by (simp add: server1_def session1_def say_def)
  have run:
    "chat (env2\<lparr>llm := ToolCall ''get_order_info'' (Args (Some ''details'') None)\<rparr>)
       (say ''show my order details'') server1 =
       (Json ((mkReply ''Please enter the 6-digit OTP sent to your WhatsApp number.'' AWAITING_OTP)
                \<lparr>res_requiresOtp := Some True\<rparr>),
        [], server1\<lparr>sessions := [(''s1'', session1\<lparr>lastActive := 31000\<rparr>)]\<rparr>)"
    by (simp add: step_defs string_defs fixture_defs)
  show ?thesis
    using unverified_session_sees_no_order_details [OF reachable_server1 unverified run]
      reachable_server1 unverified run
    by simp
qed

section \<open>Reschedule options\<close>

lemma generateRescheduleOptions_unfold:
  "generateRescheduleOptions e baseDate =
     [rescheduleOption e baseDate 1, rescheduleOption e baseDate 2, rescheduleOption e baseDate 3]"
  by (simp add: generateRescheduleOptions_def generateLoop.simps)

lemma rescheduleOption_slots:
  "rescheduleOption e b 1 =
     \<lparr>date = setHours e 13 (addDays e 1 b),
      display = shortDate e (setHours e 13 (addDays e 1 b)) @ '' | Afternoon''\<rparr>"
  "rescheduleOption e b 2 =
     \<lparr>date = setHours e 18 (addDays e 2 b),
      display = shortDate e (setHours e 18 (addDays e 2 b)) @ '' | Evening''\<rparr>"
  "rescheduleOption e b 3 =
     \<lparr>date = setHours e 9 (addDays e 3 b),
      display = shortDate e (setHours e 9 (addDays e 3 b)) @ '' | Morning''\<rparr>"
  by (simp_all add: rescheduleOption_def Let_def)

text \<open>One slot, when the local times it passes through are local times of a \<^verbatim>\<open>Date\<close>.\<close>

lemma slot_date:
  assumes "representable e (localTime e t + i * msPerDay)"
    and "representable e (slotLocalTime e t i h)"
    and "0 \<le> h" and "h < 24"
  shows "setHours e h (addDays e i (Millis t)) = Millis (utc e (slotLocalTime e t i h))"
    and "localDay e (utc e (slotLocalTime e t i h)) = localDay e t + i"
    and "localTimeOfDay e (utc e (slotLocalTime e t i h)) = h * msPerHour"
proof -
  let ?x = "localTime e t + i * msPerDay"
  have moved: "addDays e i (Millis t) = Millis (utc e ?x)"
    using assms(1) by (simp add: addDays_def timeClip_def representable_def)
  have "localTime e (utc e ?x) = ?x"
    using assms(1) by (simp add: representable_def)
  then have day: "localDay e (utc e ?x) = localDay e t + i"
    by (simp add: localDay_def msPerDay_def)
  show "setHours e h (addDays e i (Millis t)) = Millis (utc e (slotLocalTime e t i h))"
    using assms(2) by (simp add: moved setHours_def day slotLocalTime_def timeClip_def representable_def)
  have trip: "localTime e (utc e (slotLocalTime e t i h)) = slotLocalTime e t i h"
    using assms(2) by (simp add: representable_def)
  define d where "d = localDay e t + i"
  have slot: "slotLocalTime e t i h = d * 86400000 + h * 3600000"
    by (simp add: slotLocalTime_def d_def msPerDay_def msPerHour_def)
  have "localDay e (utc e (slotLocalTime e t i h)) = slotLocalTime e t i h div 86400000"
    by (simp add: localDay_def trip msPerDay_def)
  also have "\<dots> = d"
    using assms(3,4) by (simp add: slot)
  finally show "localDay e (utc e (slotLocalTime e t i h)) = localDay e t + i"
    by (simp only: d_def)
  have "localTimeOfDay e (utc e (slotLocalTime e t i h)) = slotLocalTime e t i h mod 86400000"
    by (simp add: localTimeOfDay_def trip msPerDay_def)
  also have "\<dots> = h * 3600000"
    using assms(3,4) by (simp add: slot)
  finally show "localTimeOfDay e (utc e (slotLocalTime e t i h)) = h * msPerHour"
    by (simp only: msPerHour_def)
qed

text \<open>In a zone whose offset varies by less than 15 hours, a later slot is a later time.\<close>

lemma slots_increase:
  assumes "steadyZone e" and "15 * msPerHour \<le> y - x"
  shows "utc e x < utc e y"
proof -
  have "\<bar>localTZA e y False - localTZA e x False\<bar> < 15 * msPerHour"
    using assms(1) by (simp add: steadyZone_def)
  then show ?thesis using assms(2) by (simp add: utc_def)
qed

text \<open>
  C4, as the code has it. For every base date, \<^verbatim>\<open>generateRescheduleOptions\<close> returns
  exactly three options, for the offsets \<open>i\<close> = 1, 2, 3: the date is the base date moved
  by \<open>i\<close> days (\<^verbatim>\<open>setDate\<close>) and then set to 13:00 (Afternoon), 18:00 (Evening) and
  09:00 (Morning), which is the slot \<^verbatim>\<open>cycle[i % 3]\<close> of (Morning, Afternoon, Evening), and
  the label is the formatted date followed by the slot's name. The list is a function
  of the base date (and of the platform's time zone and date format) alone, so two
  calls with the same base date give the same dates and labels.

  When the base date is a valid date, the zone's offset varies by less than 15 hours,
  and the local times \<open>i\<close> days after the base date's and the three slot times are local
  times of a \<^verbatim>\<open>Date\<close> (in range, and not skipped by a change of the offset), the three
  dates are the local days 1, 2 and 3 after the base date's local day, at 13:00, 18:00
  and 09:00 local time, and they are strictly increasing.
\<close>

theorem generateRescheduleOptions_spec:
  "generateRescheduleOptions e baseDate =
     [\<lparr>date = setHours e 13 (addDays e 1 baseDate),
       display = shortDate e (setHours e 13 (addDays e 1 baseDate)) @ '' | Afternoon''\<rparr>,
      \<lparr>date = setHours e 18 (addDays e 2 baseDate),
       display = shortDate e (setHours e 18 (addDays e 2 baseDate)) @ '' | Evening''\<rparr>,
      \<lparr>date = setHours e 9 (addDays e 3 baseDate),
       display = shortDate e (setHours e 9 (addDays e 3 baseDate)) @ '' | Morning''\<rparr>] \<and>
   length (generateRescheduleOptions e baseDate) = 3 \<and>
   (baseDate = Millis t \<and> steadyZone e \<and>
    representable e (localTime e t + 1 * msPerDay) \<and>
    representable e (localTime e t + 2 * msPerDay) \<and>
    representable e (localTime e t + 3 * msPerDay) \<and>
    representable e (slotLocalTime e t 1 13) \<and>
    representable e (slotLocalTime e t 2 18) \<and>
    representable e (slotLocalTime e t 3 9) \<longrightarrow>
      map date (generateRescheduleOptions e baseDate) =
        [Millis (utc e (slotLocalTime e t 1 13)), Millis (utc e (slotLocalTime e t 2 18)),
         Millis (utc e (slotLocalTime e t 3 9))] \<and>
      sorted_wrt dateBefore (map date (generateRescheduleOptions e baseDate)) \<and>
      map (localDay e)
        [utc e (slotLocalTime e t 1 13), utc e (slotLocalTime e t 2 18),
         utc e (slotLocalTime e t 3 9)] =
        [localDay e t + 1, localDay e t + 2, localDay e t + 3] \<and>
      map (localTimeOfDay e)
        [utc e (slotLocalTime e t 1 13), utc e (slotLocalTime e t 2 18),
         utc e (slotLocalTime e t 3 9)] =
        [13 * msPerHour, 18 * msPerHour, 9 * msPerHour])"
proof -
  have closed: "generateRescheduleOptions e baseDate =
     [\<lparr>date = setHours e 13 (addDays e 1 baseDate),
       display = shortDate e (setHours e 13 (addDays e 1 baseDate)) @ '' | Afternoon''\<rparr>,
      \<lparr>date = setHours e 18 (addDays e 2 baseDate),
       display = shortDate e (setHours e 18 (addDays e 2 baseDate)) @ '' | Evening''\<rparr>,
      \<lparr>date = setHours e 9 (addDays e 3 baseDate),
       display = shortDate e (setHours e 9 (addDays e 3 baseDate)) @ '' | Morning''\<rparr>]"
    by (simp only: generateRescheduleOptions_unfold rescheduleOption_slots)
  have good: "map date (generateRescheduleOptions e baseDate) =
        [Millis (utc e (slotLocalTime e t 1 13)), Millis (utc e (slotLocalTime e t 2 18)),
         Millis (utc e (slotLocalTime e t 3 9))] \<and>
      sorted_wrt dateBefore (map date (generateRescheduleOptions e baseDate)) \<and>
      map (localDay e)
        [utc e (slotLocalTime e t 1 13), utc e (slotLocalTime e t 2 18),
         utc e (slotLocalTime e t 3 9)] =
        [localDay e t + 1, localDay e t + 2, localDay e t + 3] \<and>
      map (localTimeOfDay e)
        [utc e (slotLocalTime e t 1 13), utc e (slotLocalTime e t 2 18),
         utc e (slotLocalTime e t 3 9)] =
        [13 * msPerHour, 18 * msPerHour, 9 * msPerHour]"
    if base: "baseDate = Millis t" and zone: "steadyZone e"
      and m1: "representable e (localTime e t + 1 * msPerDay)"
      and m2: "representable e (localTime e t + 2 * msPerDay)"
      and m3: "representable e (localTime e t + 3 * msPerDay)"
      and s1: "representable e (slotLocalTime e t 1 13)"
      and s2: "representable e (slotLocalTime e t 2 18)"
      and s3: "representable e (slotLocalTime e t 3 9)"
  proof -
    note a = slot_date [OF m1 s1] and b = slot_date [OF m2 s2] and c = slot_date [OF m3 s3]
    have dates: "map date (generateRescheduleOptions e baseDate) =
        [Millis (utc e (slotLocalTime e t 1 13)), Millis (utc e (slotLocalTime e t 2 18)),
         Millis (utc e (slotLocalTime e t 3 9))]"
      using closed a(1) b(1) c(1) by (simp add: base)
    have "utc e (slotLocalTime e t 1 13) < utc e (slotLocalTime e t 2 18)"
      by (rule slots_increase [OF zone]) (simp add: slotLocalTime_def msPerDay_def msPerHour_def)
    moreover have "utc e (slotLocalTime e t 2 18) < utc e (slotLocalTime e t 3 9)"
      by (rule slots_increase [OF zone]) (simp add: slotLocalTime_def msPerDay_def msPerHour_def)
    ultimately have incr: "sorted_wrt dateBefore (map date (generateRescheduleOptions e baseDate))"
      unfolding dates by (simp add: dateBefore_def)
    show ?thesis
      using dates incr a(2,3) b(2,3) c(2,3) by simp
  qed
  have three: "length (generateRescheduleOptions e baseDate) = 3"
    by (simp add: closed)
  show ?thesis
    using closed three good by blast
qed

lemma newYork_steady: "steadyZone envNewYork"
  by (simp add: steadyZone_def envNewYork_def env0_def newYork2024_def msPerHour_def)

theorem generateRescheduleOptions_spec_witness:
  "steadyZone envNewYork \<and>
   localTime envNewYork 1709985600000 = 1709967600000 \<and>
   slotLocalTime envNewYork 1709985600000 1 13 = 1710075600000 \<and>
   slotLocalTime envNewYork 1709985600000 2 18 = 1710180000000 \<and>
   slotLocalTime envNewYork 1709985600000 3 9 = 1710234000000 \<and>
   representable envNewYork (localTime envNewYork 1709985600000 + 1 * msPerDay) \<and>
   representable envNewYork (localTime envNewYork 1709985600000 + 2 * msPerDay) \<and>
   representable envNewYork (localTime envNewYork 1709985600000 + 3 * msPerDay) \<and>
   representable envNewYork (slotLocalTime envNewYork 1709985600000 1 13) \<and>
   representable envNewYork (slotLocalTime envNewYork 1709985600000 2 18) \<and>
   representable envNewYork (slotLocalTime envNewYork 1709985600000 3 9) \<and>
   map date (generateRescheduleOptions envNewYork (Millis 1709985600000)) =
     [Millis 1710090000000, Millis 1710194400000, Millis 1710248400000] \<and>
   sorted_wrt dateBefore (map date (generateRescheduleOptions envNewYork (Millis 1709985600000))) \<and>
   map (localDay envNewYork) [1710090000000, 1710194400000, 1710248400000] =
     [localDay envNewYork 1709985600000 + 1, localDay envNewYork 1709985600000 + 2,
      localDay envNewYork 1709985600000 + 3] \<and>
   map (localTimeOfDay envNewYork) [1710090000000, 1710194400000, 1710248400000] =
     [13 * msPerHour, 18 * msPerHour, 9 * msPerHour]"
proof -
  have times: "localTime envNewYork 1709985600000 = 1709967600000"
    "slotLocalTime envNewYork 1709985600000 1 13 = 1710075600000"
    "slotLocalTime envNewYork 1709985600000 2 18 = 1710180000000"
    "slotLocalTime envNewYork 1709985600000 3 9 = 1710234000000"
    by (simp_all add: slotLocalTime_def date_defs envNewYork_def env0_def newYork2024_def)
  have moved: "representable envNewYork (localTime envNewYork 1709985600000 + 1 * msPerDay)"
    "representable envNewYork (localTime envNewYork 1709985600000 + 2 * msPerDay)"
    "representable envNewYork (localTime envNewYork 1709985600000 + 3 * msPerDay)"
    by (simp_all add: representable_def date_defs envNewYork_def env0_def newYork2024_def)
  have slots: "representable envNewYork (slotLocalTime envNewYork 1709985600000 1 13)"
    "representable envNewYork (slotLocalTime envNewYork 1709985600000 2 18)"
    "representable envNewYork (slotLocalTime envNewYork 1709985600000 3 9)"
    by (simp_all add: representable_def slotLocalTime_def date_defs envNewYork_def env0_def
        newYork2024_def)
  have utcs: "utc envNewYork 1710075600000 = 1710090000000"
    "utc envNewYork 1710180000000 = 1710194400000"
    "utc envNewYork 1710234000000 = 1710248400000"
    by (simp_all add: utc_def envNewYork_def env0_def newYork2024_def)
  have "map date (generateRescheduleOptions envNewYork (Millis 1709985600000)) =
        [Millis (utc envNewYork (slotLocalTime envNewYork 1709985600000 1 13)),
         Millis (utc envNewYork (slotLocalTime envNewYork 1709985600000 2 18)),
         Millis (utc envNewYork (slotLocalTime envNewYork 1709985600000 3 9))] \<and>
      sorted_wrt dateBefore (map date (generateRescheduleOptions envNewYork (Millis 1709985600000))) \<and>
      map (localDay envNewYork)
        [utc envNewYork (slotLocalTime envNewYork 1709985600000 1 13),
         utc envNewYork (slotLocalTime envNewYork 1709985600000 2 18),
         utc envNewYork (slotLocalTime envNewYork 1709985600000 3 9)] =
        [localDay envNewYork 1709985600000 + 1, localDay envNewYork 1709985600000 + 2,
         localDay envNewYork 1709985600000 + 3] \<and>
      map (localTimeOfDay envNewYork)
        [utc envNewYork (slotLocalTime envNewYork 1709985600000 1 13),
         utc envNewYork (slotLocalTime envNewYork 1709985600000 2 18),
         utc envNewYork (slotLocalTime envNewYork 1709985600000 3 9)] =
        [13 * msPerHour, 18 * msPerHour, 9 * msPerHour]"
    using generateRescheduleOptions_spec [of envNewYork "Millis 1709985600000" 1709985600000]
      newYork_steady moved slots
    by blast
  note slotted = this [unfolded times utcs]
  show ?thesis
    using slotted newYork_steady times moved slots by blast
qed

text \<open>
  C4 as stated does not hold for every base date. For the last valid date (8.64e15 ms)
  the three dates are Invalid Dates, which are not increasing. In Apia, where
  30 December 2011 does not exist, the base date 28 December 2011 12:00 local time gives
  29 December 13:00, then 31 December 18:00 (the skipped day read with the old offset),
  then 31 December 09:00: the third date is before the second.
\<close>

theorem generateRescheduleOptions_counterexample:
  "map date (generateRescheduleOptions env0 (Millis 8640000000000000)) =
     [InvalidDate, InvalidDate, InvalidDate] \<and>
   \<not> sorted_wrt dateBefore (map date (generateRescheduleOptions env0 (Millis 8640000000000000))) \<and>
   map date (generateRescheduleOptions envApia (Millis 1325109600000)) =
     [Millis 1325199600000, Millis 1325304000000, Millis 1325271600000] \<and>
   \<not> sorted_wrt dateBefore (map date (generateRescheduleOptions envApia (Millis 1325109600000))) \<and>
   map (localDay envApia) [1325109600000, 1325199600000, 1325304000000, 1325271600000] =
     [15336, 15337, 15339, 15339]"
  by (simp add: generateRescheduleOptions_unfold rescheduleOption_slots date_defs dateBefore_def
      envApia_def env0_def apia2011_def)

section \<open>Session expiry\<close>

lemma otpVerification_notExpiry:
  "otpVerification e msg s w = Some r \<Longrightarrow> notExpiryReply r"
  by (auto simp: otpVerification_def notExpiryReply_def mkReply_def
      split: if_splits option.splits)

lemma slotSelection_notExpiry:
  "slotSelection e msg s w = Some r \<Longrightarrow> notExpiryReply r"
  by (auto simp: slotSelection_def notExpiryReply_def reply_defs Let_def
      split: if_splits option.splits prod.splits bool.splits sum.splits)

lemma awbExtraction_notExpiry:
  "awbExtraction e msg s w = Inl r \<Longrightarrow> notExpiryReply r"
  by (auto simp: awbExtraction_def notExpiryReply_def reply_defs Let_def
      split: if_splits option.splits sum.splits)

lemma verificationGate_notExpiry:
  "verificationGate s w = Some r \<Longrightarrow> notExpiryReply r"
  by (auto simp: verificationGate_def notExpiryReply_def mkReply_def split: if_splits)

lemma intentDispatch_notExpiry: "notExpiryReply (intentDispatch e s w)"
  by (simp add: intentDispatch_def notExpiryReply_def mkReply_def Let_def split: prod.splits)

lemma processMessage_notExpiry: "notExpiryReply (processMessage e msg s w)"
  by (auto simp: processMessage_def otpVerification_notExpiry slotSelection_notExpiry
      awbExtraction_notExpiry verificationGate_notExpiry intentDispatch_notExpiry
      split: option.splits sum.splits)

lemma processMessage_not_expired:
  "processMessage e msg s w = (Json r, sent, s', w') \<Longrightarrow> res_sessionExpired r = None"
  using processMessage_notExpiry [of e msg s w] by (simp add: notExpiryReply_def)

text \<open>
  C3. A message for a live session (a session stored in a state the server can reach;
  its id is then not in the known-expired set) that has been idle for more than 120
  seconds is answered with \<^verbatim>\<open>sessionExpired = true\<close> and
  \<^verbatim>\<open>endConversation = true\<close>; the session is deleted from the map and its id added to
  the known-expired set. When the session is within the window, the route goes on to
  process the message on the session with \<^verbatim>\<open>lastActive\<close> set to the arrival time: the
  stored session has that \<^verbatim>\<open>lastActive\<close> afterwards, the id is not marked expired, and
  the reply is not the expiry reply.
\<close>

theorem idle_session_expires:
  assumes "reachable w"
    and "map_of (sessions w) (sessionId req) = Some s"
    and "chat e req w = (resp, sent, w')"
  shows "(now e - lastActive s > 120000 \<longrightarrow>
            resp = Json expiredReply \<and> res_sessionExpired expiredReply = Some True \<and>
            res_endConversation expiredReply = Some True \<and>
            map_of (sessions w') (sessionId req) = None \<and>
            sessionId req \<in> expiredSessions w') \<and>
         (now e - lastActive s \<le> 120000 \<longrightarrow>
            (resp, sent, w') =
              store (sessionId req) (processMessage e (message req) (s\<lparr>lastActive := now e\<rparr>) w) \<and>
            (\<exists>s'. map_of (sessions w') (sessionId req) = Some s' \<and> lastActive s' = now e) \<and>
            sessionId req \<notin> expiredSessions w' \<and>
            resp \<noteq> Json expiredReply)"
proof -
  have "sessionId req \<noteq> []" and "sessionId req \<notin> expiredSessions w"
    using reachable_stored [OF assms(1,2)] by simp_all
  note hyps = this assms(2-)
  show ?thesis
  proof (intro conjI impI)
    assume idle: "now e - lastActive s > 120000"
    then have out: "(resp, sent, w') =
        (Json expiredReply, [],
         w\<lparr>sessions := AList.delete (sessionId req) (sessions w),
           expiredSessions := insert (sessionId req) (expiredSessions w)\<rparr>)"
      using hyps by (simp add: chat_def SESSION_EXPIRATION_def)
    from out show "resp = Json expiredReply" by simp
    show "res_sessionExpired expiredReply = Some True"
      and "res_endConversation expiredReply = Some True"
      by (simp_all add: expiredReply_def mkReply_def)
    from out show "map_of (sessions w') (sessionId req) = None"
      by (simp add: delete_conv')
    from out show "sessionId req \<in> expiredSessions w'" by simp
  next
    assume within: "now e - lastActive s \<le> 120000"
    let ?s = "s\<lparr>lastActive := now e\<rparr>"
    show eq: "(resp, sent, w') = store (sessionId req) (processMessage e (message req) ?s w)"
      using within hyps by (simp add: chat_def SESSION_EXPIRATION_def)
    obtain r1 n1 s1 w1 where pm: "processMessage e (message req) ?s w = (r1, n1, s1, w1)"
      by (metis prod_cases4)
    have "untouched ?s w (r1, n1, s1, w1)"
      using processMessage_untouched [of ?s w e "message req"] pm by simp
    then have same: "expiredSessions w1 = expiredSessions w" and la: "lastActive s1 = now e"
      by (simp_all add: untouched_def)
    have parts: "resp = r1" "map_of (sessions w') (sessionId req) = Some s1"
      "expiredSessions w' = expiredSessions w1"
      using eq pm by (simp_all add: store_def update_conv')
    show "\<exists>s'. map_of (sessions w') (sessionId req) = Some s' \<and> lastActive s' = now e"
      using parts la by simp
    show "sessionId req \<notin> expiredSessions w'"
      using parts same hyps(2) by simp
    show "resp \<noteq> Json expiredReply"
    proof
      assume "resp = Json expiredReply"
      then have "processMessage e (message req) ?s w = (Json expiredReply, n1, s1, w1)"
        using parts pm by simp
      then have "res_sessionExpired expiredReply = None"
        by (rule processMessage_not_expired)
      then show False by (simp add: expiredReply_def mkReply_def)
    qed
  qed
qed


theorem idle_session_expires_witness:
  "reachable server1 \<and>
   map_of (sessions server1) (sessionId (say ''hello'')) = Some session1 \<and>
   now (env0\<lparr>now := 121001\<rparr>) - lastActive session1 > 120000 \<and>
   chat (env0\<lparr>now := 121001\<rparr>) (say ''hello'') server1 =
     (Json expiredReply, [], server1\<lparr>sessions := [], expiredSessions := {''s1''}\<rparr>) \<and>
   now (env0\<lparr>now := 121000\<rparr>) - lastActive session1 \<le> 120000 \<and>
   chat (env0\<lparr>now := 121000\<rparr>) (say ''hello'') server1 =
     (Json ((mkReply ''Please enter the 6-digit OTP sent to your WhatsApp number.'' AWAITING_OTP)
              \<lparr>res_requiresOtp := Some True\<rparr>),
      [], server1\<lparr>sessions := [(''s1'', session1\<lparr>lastActive := 121000\<rparr>)]\<rparr>) \<and>
   map_of (sessions (server1\<lparr>sessions := [], expiredSessions := {''s1''}\<rparr>))
     (sessionId (say ''hello'')) = None \<and>
   sessionId (say ''hello'') \<in> expiredSessions (server1\<lparr>sessions := [], expiredSessions := {''s1''}\<rparr>)"
proof -
  have live: "sessionId (say ''hello'') \<noteq> []" "sessionId (say ''hello'') \<notin> expiredSessions server1"
    "map_of (sessions server1) (sessionId (say ''hello'')) = Some session1"
    by (simp_all add: say_def server1_def)
  have late: "chat (env0\<lparr>now := 121001\<rparr>) (say ''hello'') server1 =
     (Json expiredReply, [], server1\<lparr>sessions := [], expiredSessions := {''s1''}\<rparr>)"
    by (simp add: step_defs string_defs fixture_defs)
  have in_time: "chat (env0\<lparr>now := 121000\<rparr>) (say ''hello'') server1 =
     (Json ((mkReply ''Please enter the 6-digit OTP sent to your WhatsApp number.'' AWAITING_OTP)
              \<lparr>res_requiresOtp := Some True\<rparr>),
      [], server1\<lparr>sessions := [(''s1'', session1\<lparr>lastActive := 121000\<rparr>)]\<rparr>)"
    by (simp add: step_defs string_defs fixture_defs)
  have times: "now (env0\<lparr>now := 121001\<rparr>) - lastActive session1 > 120000"
    "now (env0\<lparr>now := 121000\<rparr>) - lastActive session1 \<le> 120000"
    by (simp_all add: session1_def)
  show ?thesis
    using idle_session_expires [OF reachable_server1 live(3) late]
      idle_session_expires [OF reachable_server1 live(3) in_time] reachable_server1
      live late in_time times
    by simp
qed


section \<open>The OTP gate\<close>

text \<open>
  C2, as the code has it. A session stored in a state the server can reach, whose
  message arrives no more than 120 seconds after the session's last activity, in state \<^verbatim>\<open>AWAITING_OTP\<close> with \<^verbatim>\<open>otpVerified = false\<close>, holding an issued 6-digit OTP
  \<open>code\<close> with issuance time \<open>t\<close> (a \<^verbatim>\<open>Date.now()\<close>, so not 0):
  \<^item> the trimmed message is \<open>code\<close> and at most 120 seconds have passed since \<open>t\<close>:
    the session goes to \<^verbatim>\<open>ORDER_FOUND\<close> with \<^verbatim>\<open>otpVerified = true\<close>;
  \<^item> the trimmed message is a 6-digit string, and it is not \<open>code\<close> or more than 120
    seconds have passed: the session goes to \<^verbatim>\<open>INITIAL\<close>, \<^verbatim>\<open>otp\<close> and \<^verbatim>\<open>otpTimestamp\<close>
    are cleared and \<^verbatim>\<open>otpVerified\<close> is false;
  \<^item> the trimmed message is not a 6-digit string: the reply asks for the OTP again
    and \<^verbatim>\<open>otp\<close>, \<^verbatim>\<open>otpTimestamp\<close> and the state are as before.
\<close>

theorem otp_gate_transitions:
  assumes "reachable w"
    and "map_of (sessions w) (sessionId req) = Some s"
    and "now e - lastActive s \<le> 120000"
    and "conversationState s = AWAITING_OTP" and "\<not> otpVerified s"
    and "otp s = Some code" and "isSixDigits code" and "otpTimestamp s = Some t" and "t \<noteq> 0"
    and "message req = Some m"
    and "chat e req w = (resp, sent, w')"
  shows "\<exists>s'. map_of (sessions w') (sessionId req) = Some s' \<and>
     (trim m = code \<and> nowOtpCheck e - t \<le> 120000 \<longrightarrow>
        conversationState s' = ORDER_FOUND \<and> otpVerified s' \<and>
        resp = Json ((mkReply ''Verification successful! You can now access your order details.''
                        ORDER_FOUND)\<lparr>res_requiresOtp := Some False\<rparr>)) \<and>
     (isSixDigits (trim m) \<and> (trim m \<noteq> code \<or> nowOtpCheck e - t > 120000) \<longrightarrow>
        conversationState s' = INITIAL \<and> otp s' = None \<and> otpTimestamp s' = None \<and>
        \<not> otpVerified s' \<and>
        resp = Json ((mkReply ''Verification unsuccessful, try again later.'' INITIAL)
                       \<lparr>res_requiresOtp := Some False\<rparr>)) \<and>
     (\<not> isSixDigits (trim m) \<longrightarrow>
        otp s' = otp s \<and> otpTimestamp s' = otpTimestamp s \<and>
        conversationState s' = conversationState s \<and> otpVerified s' = otpVerified s \<and>
        resp = Json ((mkReply ''Please enter the 6-digit OTP sent to your WhatsApp number.''
                        AWAITING_OTP)\<lparr>res_requiresOtp := Some True\<rparr>))"
proof -
  have "sessionId req \<noteq> []" and "sessionId req \<notin> expiredSessions w"
    using reachable_stored [OF assms(1,2)] by simp_all
  note hyps = this assms(2-)
  let ?s = "s\<lparr>lastActive := now e\<rparr>"
  have nonempty: "code \<noteq> []" using hyps(8) by (auto simp: isSixDigits_def)
  have run: "(resp, sent, w') = store (sessionId req) (processMessage e (Some m) ?s w)"
    using hyps by (simp add: chat_def SESSION_EXPIRATION_def)
  have gate: "processMessage e (Some m) ?s w = the (otpVerification e (Some m) ?s w)"
    using hyps(5,6) by (simp add: processMessage_def otpVerification_def)
  have matches: "otpMatches e ?s (trim m) \<longleftrightarrow> trim m = code \<and> nowOtpCheck e - t \<le> 120000"
    using hyps(7,9,10) nonempty by (auto simp: otpMatches_def)
  show ?thesis
  proof (cases "isSixDigits (trim m)")
    case False
    then have "processMessage e (Some m) ?s w =
        (Json ((mkReply ''Please enter the 6-digit OTP sent to your WhatsApp number.''
                  AWAITING_OTP)\<lparr>res_requiresOtp := Some True\<rparr>), [], ?s, w)"
      using gate hyps(5,6) by (simp add: otpVerification_def)
    then show ?thesis using run False hyps(8)
      by (auto simp: store_def update_conv')
  next
    case six: True
    show ?thesis
    proof (cases "trim m = code \<and> nowOtpCheck e - t \<le> 120000")
      case True
      then have match: "otpMatches e ?s (trim m)" using matches by blast
      have "processMessage e (Some m) ?s w =
          (Json ((mkReply ''Verification successful! You can now access your order details.''
                    ORDER_FOUND)\<lparr>res_requiresOtp := Some False\<rparr>), [],
           ?s\<lparr>otpVerified := True, conversationState := ORDER_FOUND\<rparr>, w)"
        using gate six match hyps(5,6) by (simp add: otpVerification_def)
      then show ?thesis using run True six
        by (auto simp: store_def update_conv')
    next
      case False
      then have nomatch: "\<not> otpMatches e ?s (trim m)" using matches by blast
      have "processMessage e (Some m) ?s w =
          (Json ((mkReply ''Verification unsuccessful, try again later.'' INITIAL)
                   \<lparr>res_requiresOtp := Some False\<rparr>), [],
           ?s\<lparr>otp := None, otpTimestamp := None, otpVerified := False,
              conversationState := INITIAL\<rparr>, w)"
        using gate six nomatch hyps(5,6) by (simp add: otpVerification_def)
      then show ?thesis using run False six
        by (auto simp: store_def update_conv')
    qed
  qed
qed

theorem otp_gate_transitions_witness:
  "reachable server1 \<and>
   map_of (sessions server1) (sessionId (say '' 550000 '')) = Some session1 \<and>
   now env2 - lastActive session1 \<le> 120000 \<and>
   conversationState session1 = AWAITING_OTP \<and> \<not> otpVerified session1 \<and>
   otp session1 = Some ''550000'' \<and> isSixDigits ''550000'' \<and>
   otpTimestamp session1 = Some 1000 \<and> (1000 :: int) \<noteq> 0 \<and>
   message (say '' 550000 '') = Some '' 550000 '' \<and>
   trim '' 550000 '' = ''550000'' \<and> nowOtpCheck env2 - 1000 \<le> 120000 \<and>
   chat env2 (say '' 550000 '') server1 =
     (Json ((mkReply ''Verification successful! You can now access your order details.''
               ORDER_FOUND)\<lparr>res_requiresOtp := Some False\<rparr>), [], server2) \<and>
   map_of (sessions server2) (sessionId (say '' 550000 '')) = Some session2 \<and>
   conversationState session2 = ORDER_FOUND \<and> otpVerified session2 \<and>
   nowOtpCheck (env0\<lparr>now := 121000, nowOtpCheck := 121001\<rparr>) - 1000 > 120000 \<and>
   chat (env0\<lparr>now := 121000, nowOtpCheck := 121001\<rparr>) (say '' 550000 '') server1 =
     (Json ((mkReply ''Verification unsuccessful, try again later.'' INITIAL)
              \<lparr>res_requiresOtp := Some False\<rparr>), [],
      server1\<lparr>sessions :=
        [(''s1'', session1\<lparr>lastActive := 121000, otp := None, otpTimestamp := None,
                          conversationState := INITIAL\<rparr>)]\<rparr>) \<and>
   message (say ''my code is 550000'') = Some ''my code is 550000'' \<and>
   \<not> isSixDigits (trim ''my code is 550000'') \<and>
   chat env2 (say ''my code is 550000'') server1 =
     (Json ((mkReply ''Please enter the 6-digit OTP sent to your WhatsApp number.'' AWAITING_OTP)
              \<lparr>res_requiresOtp := Some True\<rparr>), [],
      server1\<lparr>sessions := [(''s1'', session1\<lparr>lastActive := 31000\<rparr>)]\<rparr>)"
proof -
  have live: "sessionId (say '' 550000 '') \<noteq> []"
    "sessionId (say '' 550000 '') \<notin> expiredSessions server1"
    "map_of (sessions server1) (sessionId (say '' 550000 '')) = Some session1"
    by (simp_all add: say_def server1_def)
  have window: "now env2 - lastActive session1 \<le> 120000"
    "now (env0\<lparr>now := 121000, nowOtpCheck := 121001\<rparr>) - lastActive session1 \<le> 120000"
    by (simp_all add: env2_def session1_def)
  have waiting: "conversationState session1 = AWAITING_OTP" "\<not> otpVerified session1"
    by (simp_all add: session1_def)
  have issued: "otp session1 = Some ''550000''" "isSixDigits ''550000''"
    "otpTimestamp session1 = Some 1000" "(1000 :: int) \<noteq> 0"
    by (simp_all add: session1_def isSixDigits_def isDigit_def)
  have msg: "message (say '' 550000 '') = Some '' 550000 ''" by (simp add: say_def)
  have trimmed: "trim '' 550000 '' = ''550000''" by (simp add: trim_def isSpace_def)
  have late: "chat (env0\<lparr>now := 121000, nowOtpCheck := 121001\<rparr>) (say '' 550000 '') server1 =
     (Json ((mkReply ''Verification unsuccessful, try again later.'' INITIAL)
              \<lparr>res_requiresOtp := Some False\<rparr>), [],
      server1\<lparr>sessions :=
        [(''s1'', session1\<lparr>lastActive := 121000, otp := None, otpTimestamp := None,
                          conversationState := INITIAL\<rparr>)]\<rparr>)"
    by (simp add: step_defs string_defs fixture_defs)
  have other: "map_of (sessions server1) (sessionId (say ''my code is 550000'')) = Some session1"
    "message (say ''my code is 550000'') = Some ''my code is 550000''"
    "\<not> isSixDigits (trim ''my code is 550000'')"
    by (simp_all add: say_def server1_def string_defs)
  have again: "chat env2 (say ''my code is 550000'') server1 =
     (Json ((mkReply ''Please enter the 6-digit OTP sent to your WhatsApp number.'' AWAITING_OTP)
              \<lparr>res_requiresOtp := Some True\<rparr>), [],
      server1\<lparr>sessions := [(''s1'', session1\<lparr>lastActive := 31000\<rparr>)]\<rparr>)"
    by (simp add: step_defs string_defs fixture_defs)
  have after: "map_of (sessions server2) (sessionId (say '' 550000 '')) = Some session2"
    "conversationState session2 = ORDER_FOUND" "otpVerified session2"
    by (simp_all add: server2_def session2_def say_def)
  show ?thesis
    using otp_gate_transitions [OF reachable_server1 live(3) window(1) waiting issued msg step2]
      otp_gate_transitions [OF reachable_server1 live(3) window(2) waiting issued msg late]
      otp_gate_transitions [OF reachable_server1 other(1) window(1) waiting issued other(2) again]
      other again reachable_server1
      live window waiting issued msg trimmed step2 late after
    by (simp add: env2_def)
qed


lemma stepIssue:
  "chat envIssue (say ''AWB789012'') (initialServer db0) =
     (Json otpRequestReply, [notify envIssue ''+1987654321'' (otpMessage ''550000'')],
      serverIssued)"
  by (simp add: step_defs string_defs fixture_defs envIssue_def serverIssued_def
      sessionIssued_def generateOtp_half)

lemma reachable_serverIssued: "reachable serverIssued"
  using reachable.chat_step [OF reachable.start, of envIssue "say ''AWB789012''" db0]
  by (simp add: stepIssue)

text \<open>
  C2 as stated does not hold for every session in \<^verbatim>\<open>AWAITING_OTP\<close>: the idle time is
  counted from the arrival of the message that named the order (second 1), the age of
  the OTP from its issuance later in that request (second 1.5). The right code sent at
  second 121.2, when the OTP is 119.7 seconds old, finds the session idle for 120.2
  seconds: the reply is the expiry reply and the session is deleted, not moved to
  \<^verbatim>\<open>ORDER_FOUND\<close>.
\<close>

theorem otp_gate_counterexample:
  "reachable serverIssued \<and>
   map_of (sessions serverIssued) (sessionId (say ''550000'')) = Some sessionIssued \<and>
   conversationState sessionIssued = AWAITING_OTP \<and> \<not> otpVerified sessionIssued \<and>
   otp sessionIssued = Some ''550000'' \<and> otpTimestamp sessionIssued = Some 1500 \<and>
   lastActive sessionIssued = 1000 \<and>
   trim ''550000'' = ''550000'' \<and> nowOtpCheck envLate - 1500 \<le> 120000 \<and>
   now envLate = 121200 \<and>
   chat envLate (say ''550000'') serverIssued =
     (Json expiredReply, [], serverIssued\<lparr>sessions := [], expiredSessions := {''s1''}\<rparr>) \<and>
   map_of (sessions (serverIssued\<lparr>sessions := [], expiredSessions := {''s1''}\<rparr>))
     (sessionId (say ''550000'')) = None"
  using reachable_serverIssued
  by (simp add: step_defs string_defs fixture_defs envLate_def serverIssued_def sessionIssued_def)

section \<open>Slot selection and applying a reschedule\<close>

lemma updateFirst_unchanged:
  "find P xs = Some d \<Longrightarrow> f d = d \<Longrightarrow> updateFirst P f xs = xs"
  by (induction xs) (auto split: if_splits)

lemma rescheduleOrder_failure_keeps_store:
  "rescheduleOrder d a newDate t = (False, d') \<Longrightarrow> d' = d"
  by (auto simp: rescheduleOrder_def Let_def updateFirst_unchanged
      split: if_splits option.splits)

text \<open>
  C8. A valid slot number for a session in \<^verbatim>\<open>RESCHEDULE_OPTIONS\<close> with a current order
  (a session stored in a state the server can reach, within the idle window), when \<^verbatim>\<open>rescheduleOrder\<close> returns false (the driver call rejects, or no document was
  modified): the reply is the retry message, nothing is sent, the store and the
  assistant are as before, and the stored session differs from the one before only in
  \<^verbatim>\<open>lastActive\<close>: its state is still \<^verbatim>\<open>RESCHEDULE_OPTIONS\<close> and its options are the
  same list.
\<close>

theorem reschedule_failure_keeps_session:
  assumes "reachable w"
    and "map_of (sessions w) (sessionId req) = Some s"
    and "now e - lastActive s \<le> 120000"
    and "conversationState s = RESCHEDULE_OPTIONS" and "rescheduleOptions s \<noteq> []"
    and "message req = Some m" and "parseInt (trim m) = Some k"
    and "1 \<le> k" and "k \<le> int (length (rescheduleOptions s))"
    and "currentOrder s = Some ord"
    and "fst (rescheduleOrder (db w) (awb ord) (date (rescheduleOptions s ! nat (k - 1))) (today e))
           = False"
  shows "chat e req w =
           (Json failedReply, [],
            w\<lparr>sessions := AList.update (sessionId req) (s\<lparr>lastActive := now e\<rparr>) (sessions w)\<rparr>) \<and>
         res_response failedReply = ''Failed to reschedule. Please try again later.'' \<and>
         conversationState (s\<lparr>lastActive := now e\<rparr>) = RESCHEDULE_OPTIONS \<and>
         rescheduleOptions (s\<lparr>lastActive := now e\<rparr>) = rescheduleOptions s"
proof -
  have "sessionId req \<noteq> []" and "sessionId req \<notin> expiredSessions w"
    using reachable_stored [OF assms(1,2)] by simp_all
  note hyps = this assms(2-)
  let ?s = "s\<lparr>lastActive := now e\<rparr>"
  obtain d' where fail:
    "rescheduleOrder (db w) (awb ord) (date (rescheduleOptions s ! nat (k - 1))) (today e) = (False, d')"
    using hyps(12) by (metis prod.collapse)
  then have same: "d' = db w" by (rule rescheduleOrder_failure_keeps_store)
  have "otpVerification e (Some m) ?s w = None"
    using hyps(5) by (simp add: otpVerification_def)
  moreover have "slotSelection e (Some m) ?s w = Some (Json failedReply, [], ?s, w)"
    using hyps(5-11) fail same by (simp add: slotSelection_def)
  ultimately have "processMessage e (Some m) ?s w = (Json failedReply, [], ?s, w)"
    by (simp add: processMessage_def)
  then have "chat e req w =
      (Json failedReply, [], w\<lparr>sessions := AList.update (sessionId req) ?s (sessions w)\<rparr>)"
    using hyps(1-4,7) by (simp add: chat_def SESSION_EXPIRATION_def store_def)
  then show ?thesis using hyps(5) by (simp add: failedReply_def mkReply_def)
qed

theorem reschedule_failure_keeps_session_witness:
  "reachable (server3\<lparr>db := db0\<lparr>connected := False\<rparr>\<rparr>) \<and>
   map_of (sessions (server3\<lparr>db := db0\<lparr>connected := False\<rparr>\<rparr>)) (sessionId (say ''2'')) = Some session3 \<and>
   now env4 - lastActive session3 \<le> 120000 \<and>
   conversationState session3 = RESCHEDULE_OPTIONS \<and> rescheduleOptions session3 \<noteq> [] \<and>
   message (say ''2'') = Some ''2'' \<and> parseInt (trim ''2'') = Some 2 \<and>
   currentOrder session3 = Some orderInTransit \<and>
   fst (rescheduleOrder (db (server3\<lparr>db := db0\<lparr>connected := False\<rparr>\<rparr>)) (awb orderInTransit)
          (date (rescheduleOptions session3 ! nat (2 - 1))) (today env4)) = False \<and>
   chat env4 (say ''2'') (server3\<lparr>db := db0\<lparr>connected := False\<rparr>\<rparr>) =
     (Json failedReply, [],
      server3\<lparr>db := db0\<lparr>connected := False\<rparr>,
              sessions := [(''s1'', session3\<lparr>lastActive := 91000\<rparr>)]\<rparr>)"
proof -
  let ?w = "server3\<lparr>db := db0\<lparr>connected := False\<rparr>\<rparr>"
  have reach: "reachable ?w" using reachable_server3 by (rule reachable.store_step)
  have live: "sessionId (say ''2'') \<noteq> []" "sessionId (say ''2'') \<notin> expiredSessions ?w"
    "map_of (sessions ?w) (sessionId (say ''2'')) = Some session3"
    "now env4 - lastActive session3 \<le> 120000"
    by (simp_all add: fixture_defs)
  have slot: "conversationState session3 = RESCHEDULE_OPTIONS" "rescheduleOptions session3 \<noteq> []"
    "message (say ''2'') = Some ''2''" "parseInt (trim ''2'') = Some 2"
    "(1 :: int) \<le> 2" "2 \<le> int (length (rescheduleOptions session3))"
    "currentOrder session3 = Some orderInTransit"
    by (simp_all add: fixture_defs string_defs)
  have down: "fst (rescheduleOrder (db ?w) (awb orderInTransit)
          (date (rescheduleOptions session3 ! nat (2 - 1))) (today env4)) = False"
    by (simp add: rescheduleOrder_def db0_def)
  show ?thesis
    using reschedule_failure_keeps_session [OF reach live(3,4) slot down] reach live slot down
    by (simp add: fixture_defs)
qed


lemma rescheduleOrder_success_connected:
  "rescheduleOrder d a newDate t = (True, d') \<Longrightarrow> connected d'"
  by (auto simp: rescheduleOrder_def Let_def split: if_splits option.splits)

lemma parseInt_slots:
  "parseInt (trim ''1'') = Some 1" "parseInt (trim ''2'') = Some 2" "parseInt (trim ''3'') = Some 3"
  "parseInt (trim ''0'') = Some 0" "parseInt (trim ''4'') = Some 4" "parseInt (trim ''abc'') = None"
  by (simp_all add: string_defs)

text \<open>
  C5, as the code has it. For a session in \<^verbatim>\<open>RESCHEDULE_OPTIONS\<close> with 3 pending options
  (stored in a state the server can reach, within the idle window):
  the inputs 1, 2 and 3 select the option of that number, and when the session has a
  current order and the Order Store update succeeds, the store is updated to that
  option's date, the pending list is cleared and the session goes to \<^verbatim>\<open>ORDER_FOUND\<close>;
  the inputs 0, 4 and abc leave the session as it is but for \<^verbatim>\<open>lastActive\<close> (so the
  pending list and the state), and the reply asks for a number between 1 and 3.
\<close>

theorem slot_selection_bounds:
  assumes "reachable w"
    and "map_of (sessions w) (sessionId req) = Some s"
    and "now e - lastActive s \<le> 120000"
    and "conversationState s = RESCHEDULE_OPTIONS" and "length (rescheduleOptions s) = 3"
    and "message req = Some m"
    and "chat e req w = (resp, sent, w')"
  shows "((m, i) \<in> set [(''1'', 0), (''2'', 1), (''3'', 2)] \<and> currentOrder s = Some ord \<and>
          rescheduleOrder (db w) (awb ord) (date (rescheduleOptions s ! i)) (today e) = (True, d') \<longrightarrow>
            (\<exists>s'. map_of (sessions w') (sessionId req) = Some s' \<and> rescheduleOptions s' = [] \<and>
                  conversationState s' = ORDER_FOUND) \<and>
            db w' = d' \<and>
            (\<exists>r. resp = Json r \<and>
                 res_response r =
                   ''Your order has been rescheduled to '' @ display (rescheduleOptions s ! i) @ ''.'')) \<and>
         (m \<in> set [''0'', ''4'', ''abc''] \<longrightarrow>
            w' = w\<lparr>sessions := AList.update (sessionId req) (s\<lparr>lastActive := now e\<rparr>) (sessions w)\<rparr> \<and>
            sent = [] \<and> resp = Json (rangeReply s) \<and>
            res_response (rangeReply s) = ''Please enter a number between 1 and 3.'')"
proof -
  have "sessionId req \<noteq> []" and "sessionId req \<notin> expiredSessions w"
    using reachable_stored [OF assms(1,2)] by simp_all
  note hyps = this assms(2-)
  show ?thesis
  proof (intro conjI impI)
    let ?s = "s\<lparr>lastActive := now e\<rparr>"
    have run: "(resp, sent, w') = store (sessionId req) (processMessage e (Some m) ?s w)"
      using hyps by (simp add: chat_def SESSION_EXPIRATION_def)
    have no_otp: "otpVerification e (Some m) ?s w = None"
      using hyps(5) by (simp add: otpVerification_def)
    {
      assume sel: "(m, i) \<in> set [(''1'', 0), (''2'', 1), (''3'', 2)] \<and> currentOrder s = Some ord \<and>
            rescheduleOrder (db w) (awb ord) (date (rescheduleOptions s ! i)) (today e) = (True, d')"
      then have up: "connected d'" by (auto dest: rescheduleOrder_success_connected)
      from sel have num: "parseInt (trim m) = Some (int i + 1)" "i < 3"
        by (auto simp: parseInt_slots)
      let ?fresh = "find (\<lambda>d. awb d = awb ord) (orders d')"
      have "slotSelection e (Some m) ?s w =
          Some (Json (rescheduledReply e (rescheduleOptions s ! i) ?fresh),
                (case ?fresh of None \<Rightarrow> []
                 | Some f \<Rightarrow> if truthy (customerPhone f)
                             then [notify e (the (customerPhone f)) (formatWhatsAppMessage e f)]
                             else []),
                ?s\<lparr>currentOrder := ?fresh, rescheduleOptions := [], conversationState := ORDER_FOUND\<rparr>,
                w\<lparr>db := d'\<rparr>)"
        using hyps(5,6) sel num up by (simp add: slotSelection_def getOrderStatus_def)
      then have res: "(resp, sent, w') =
          store (sessionId req)
            (Json (rescheduledReply e (rescheduleOptions s ! i) ?fresh),
                (case ?fresh of None \<Rightarrow> []
                 | Some f \<Rightarrow> if truthy (customerPhone f)
                             then [notify e (the (customerPhone f)) (formatWhatsAppMessage e f)]
                             else []),
                ?s\<lparr>currentOrder := ?fresh, rescheduleOptions := [], conversationState := ORDER_FOUND\<rparr>,
                w\<lparr>db := d'\<rparr>)"
        using run no_otp by (simp add: processMessage_def)
      from res show "\<exists>s'. map_of (sessions w') (sessionId req) = Some s' \<and> rescheduleOptions s' = [] \<and>
                    conversationState s' = ORDER_FOUND"
        by (simp add: store_def update_conv')
      from res show "db w' = d'" by (simp add: store_def)
      from res show "\<exists>r. resp = Json r \<and>
                   res_response r =
                     ''Your order has been rescheduled to '' @ display (rescheduleOptions s ! i) @ ''.''"
        by (simp add: store_def rescheduledReply_def mkReply_def)
    }
    {
      assume bad: "m \<in> set [''0'', ''4'', ''abc'']"
      then have "slotSelection e (Some m) ?s w = Some (Json (rangeReply ?s), [], ?s, w)"
        using hyps(5,6) by (auto simp: slotSelection_def parseInt_slots)
      moreover have same: "rangeReply ?s = rangeReply s" by (simp add: rangeReply_def)
      ultimately have res: "(resp, sent, w') = store (sessionId req) (Json (rangeReply s), [], ?s, w)"
        using run no_otp by (simp add: processMessage_def)
      from res show "w' = w\<lparr>sessions := AList.update (sessionId req) ?s (sessions w)\<rparr>"
        and "sent = []" and "resp = Json (rangeReply s)"
        by (simp_all add: store_def)
      show "res_response (rangeReply s) = ''Please enter a number between 1 and 3.''"
        using hyps(6) by (simp add: rangeReply_def mkReply_def toString_def decimal.simps digitChar_def)
    }
  qed
qed


lemma step4_full:
  "chat env4 (say ''2'') server3 =
     (Json (rescheduledReply env4 (options3 ! 1) (Some orderRescheduled)),
      [notify env4 ''+1987654321'' (formatWhatsAppMessage env4 orderRescheduled)], server4)"
  by (simp add: step_defs string_defs fixture_defs)

lemma step4_bad:
  "chat env4 (say ''4'') server3 =
     (Json (rangeReply session3), [],
      server3\<lparr>sessions := AList.update (sessionId (say ''4'')) (session3\<lparr>lastActive := now env4\<rparr>)
                             (sessions server3)\<rparr>)"
  by (simp add: step_defs string_defs fixture_defs)

theorem slot_selection_bounds_witness:
  "reachable server3 \<and>
   map_of (sessions server3) (sessionId (say ''2'')) = Some session3 \<and>
   now env4 - lastActive session3 \<le> 120000 \<and>
   conversationState session3 = RESCHEDULE_OPTIONS \<and> length (rescheduleOptions session3) = 3 \<and>
   message (say ''2'') = Some ''2'' \<and>
   (''2'', Suc 0) \<in> set [(''1'', 0), (''2'', 1), (''3'', 2)] \<and>
   currentOrder session3 = Some orderInTransit \<and>
   rescheduleOrder (db server3) (awb orderInTransit) (date (rescheduleOptions session3 ! Suc 0))
     (today env4) = (True, db server4) \<and>
   chat env4 (say ''2'') server3 =
     (Json (rescheduledReply env4 (options3 ! 1) (Some orderRescheduled)),
      [notify env4 ''+1987654321'' (formatWhatsAppMessage env4 orderRescheduled)], server4) \<and>
   map_of (sessions server4) (sessionId (say ''2'')) = Some session4 \<and>
   rescheduleOptions session4 = [] \<and> conversationState session4 = ORDER_FOUND \<and>
   res_response (rescheduledReply env4 (options3 ! 1) (Some orderRescheduled)) =
     ''Your order has been rescheduled to 390600000 | Evening.'' \<and>
   message (say ''4'') = Some ''4'' \<and> ''4'' \<in> set [''0'', ''4'', ''abc''] \<and>
   chat env4 (say ''4'') server3 =
     (Json (rangeReply session3), [],
      server3\<lparr>sessions := [(''s1'', session3\<lparr>lastActive := 91000\<rparr>)]\<rparr>) \<and>
   res_response (rangeReply session3) = ''Please enter a number between 1 and 3.''"
proof -
  have live: "sessionId (say ''2'') \<noteq> []" "sessionId (say ''2'') \<notin> expiredSessions server3"
    "map_of (sessions server3) (sessionId (say ''2'')) = Some session3"
    "now env4 - lastActive session3 \<le> 120000"
    "conversationState session3 = RESCHEDULE_OPTIONS" "length (rescheduleOptions session3) = 3"
    by (simp_all add: fixture_defs)
  have live': "sessionId (say ''4'') \<noteq> []" "sessionId (say ''4'') \<notin> expiredSessions server3"
    "map_of (sessions server3) (sessionId (say ''4'')) = Some session3"
    by (simp_all add: fixture_defs)
  have msg: "message (say ''2'') = Some ''2''" "message (say ''4'') = Some ''4''"
    by (simp_all add: say_def)
  have chosen: "(''2'', Suc 0) \<in> set [(''1'', 0), (''2'', 1), (''3'', 2)]"
    "''4'' \<in> set [''0'', ''4'', ''abc'']"
    "currentOrder session3 = Some orderInTransit"
    by (simp_all add: fixture_defs)
  have updated: "rescheduleOrder (db server3) (awb orderInTransit)
      (date (rescheduleOptions session3 ! Suc 0)) (today env4) = (True, db server4)"
    by (simp add: rescheduleOrder_def today_def fixture_defs)
  have after: "map_of (sessions server4) (sessionId (say ''2'')) = Some session4"
    "rescheduleOptions session4 = []" "conversationState session4 = ORDER_FOUND"
    "res_response (rescheduledReply env4 (options3 ! 1) (Some orderRescheduled)) =
       ''Your order has been rescheduled to 390600000 | Evening.''"
    by (simp_all add: fixture_defs rescheduledReply_def mkReply_def)
  have bad: "chat env4 (say ''4'') server3 =
     (Json (rangeReply session3), [],
      server3\<lparr>sessions := [(''s1'', session3\<lparr>lastActive := 91000\<rparr>)]\<rparr>)"
    using step4_bad by (simp add: fixture_defs)
  show ?thesis
    using slot_selection_bounds [OF reachable_server3 live(3-6) msg(1) step4_full,
        of "Suc 0" orderInTransit "db server4"]
      slot_selection_bounds [OF reachable_server3 live'(3) live(4,5,6) msg(2) step4_bad,
        of "Suc 0" orderInTransit "db server4"]
      reachable_server3 live msg chosen updated step4_full after bad
    by simp
qed

text \<open>
  C5 as stated does not hold for every session in \<^verbatim>\<open>RESCHEDULE_OPTIONS\<close> with 3 options:
  when the order is no longer in the Order Store, input 1 is a valid selection and yet
  the pending list is not cleared (\<^verbatim>\<open>if (success)\<close> guards the clearing). And for a
  session that has been idle for more than 120 seconds (here 120.001), input 0 gets the
  expiry reply, not the range message, and the session is deleted.
\<close>

theorem slot_selection_counterexample:
  "reachable serverOrderGone \<and>
   map_of (sessions serverOrderGone) (sessionId (say ''1'')) = Some session3 \<and>
   conversationState session3 = RESCHEDULE_OPTIONS \<and> length (rescheduleOptions session3) = 3 \<and>
   chat env4 (say ''1'') serverOrderGone =
     (Json failedReply, [],
      serverOrderGone\<lparr>sessions := [(''s1'', session3\<lparr>lastActive := 91000\<rparr>)]\<rparr>) \<and>
   rescheduleOptions (session3\<lparr>lastActive := 91000\<rparr>) = options3 \<and> options3 \<noteq> [] \<and>
   reachable server3 \<and> map_of (sessions server3) (sessionId (say ''0'')) = Some session3 \<and>
   lastActive session3 = 61000 \<and>
   chat (env0\<lparr>now := 181001\<rparr>) (say ''0'') server3 =
     (Json expiredReply, [], server3\<lparr>sessions := [], expiredSessions := {''s1''}\<rparr>)"
proof -
  have "reachable serverOrderGone"
    unfolding serverOrderGone_def using reachable_server3 by (rule reachable.store_step)
  then show ?thesis
    using reachable_server3
    by (simp add: step_defs string_defs fixture_defs serverOrderGone_def)
qed


section \<open>Issuing an OTP\<close>


















section \<open>Intent dispatch\<close>


















section \<open>Two defects\<close>

text \<open>
  C7 (a defect of the code). The conversation of session \<open>s1\<close>: tracking id, OTP,
  reschedule request, slot 2. The order is now rescheduled, so not eligible, and the
  session is in \<^verbatim>\<open>ORDER_FOUND\<close>; but the assistant, one object for the whole server, is
  still in \<^verbatim>\<open>RESCHEDULE_OPTIONS\<close>, since the slot-selection block of the route does not
  reset it. The next message the resolver answers with no tool call puts the session
  into \<^verbatim>\<open>RESCHEDULE_OPTIONS\<close> for that order.
\<close>

theorem ineligible_order_enters_reschedule_options:
  "reachable server4 \<and>
   map_of (sessions server4) (sessionId (say ''thanks'')) = Some session4 \<and>
   currentOrder session4 = Some orderRescheduled \<and> \<not> canReschedule orderRescheduled \<and>
   conversationState session4 = ORDER_FOUND \<and> assistant server4 = RESCHEDULE_OPTIONS \<and>
   chat env5 (say ''thanks'') server4 =
     (Json (mkReply ''How can I help with your delivery today?'' RESCHEDULE_OPTIONS), [],
      server4\<lparr>sessions :=
        [(''s1'', session4\<lparr>conversationState := RESCHEDULE_OPTIONS, lastActive := 121000\<rparr>)]\<rparr>)"
  using reachable_server4 step5
  by (simp add: fixture_defs canReschedule_def)

lemma cleanup_server1:
  "cleanupExpiredSessions 130000 server1 = server1\<lparr>sessions := [], expiredSessions := {}\<rparr>"
  by (simp add: cleanupExpiredSessions_def dropsExpired_def SESSION_EXPIRATION_def Let_def
      fixture_defs)

text \<open>
  C10 (a defect of the code). Session \<open>s1\<close> was last active at second 1. The sweep at
  second 130 deletes it, adds its id to the known-expired set and, in its second loop,
  takes the id out again, because the session is no longer in the map. A message for
  \<open>s1\<close> at second 131 silently starts a new session. The same happens to an id that
  the chat route marked expired (at second 121.001): the sweep at second 130 drops it.
\<close>

theorem swept_session_id_is_forgotten:
  "lastActive session1 = 1000 \<and>
   cleanupExpiredSessions 130000 server1 = server1\<lparr>sessions := [], expiredSessions := {}\<rparr> \<and>
   chat (env0\<lparr>now := 131000\<rparr>) (say ''hello'') (server1\<lparr>sessions := [], expiredSessions := {}\<rparr>) =
     (Json (mkReply ''How can I help with your delivery today?'' INITIAL), [],
      server1\<lparr>sessions := [(''s1'', newSession (env0\<lparr>now := 131000\<rparr>))], expiredSessions := {}\<rparr>) \<and>
   chat (env0\<lparr>now := 121001\<rparr>) (say ''hello'') server1 =
     (Json expiredReply, [], server1\<lparr>sessions := [], expiredSessions := {''s1''}\<rparr>) \<and>
   cleanupExpiredSessions 130000 (server1\<lparr>sessions := [], expiredSessions := {''s1''}\<rparr>) =
     server1\<lparr>sessions := [], expiredSessions := {}\<rparr>"
  using cleanup_server1
  by (simp add: step_defs string_defs fixture_defs cleanupExpiredSessions_def dropsExpired_def Let_def)


section \<open>What holds of reschedule offers and of the sweep\<close>

lemma otpVerification_noOffer: "otpVerification e msg s w = Some r \<Longrightarrow> noOffer r"
  by (auto simp: otpVerification_def noOffer_def mkReply_def split: if_splits option.splits)

lemma slotSelection_noOffer: "slotSelection e msg s w = Some r \<Longrightarrow> noOffer r"
  by (auto simp: slotSelection_def noOffer_def reply_defs Let_def
      split: if_splits option.splits prod.splits bool.splits sum.splits)

lemma awbExtraction_noOffer: "awbExtraction e msg s w = Inl r \<Longrightarrow> noOffer r"
  by (auto simp: awbExtraction_def noOffer_def reply_defs Let_def
      split: if_splits option.splits sum.splits)

lemma verificationGate_noOffer: "verificationGate s w = Some r \<Longrightarrow> noOffer r"
  by (auto simp: verificationGate_def noOffer_def mkReply_def split: if_splits)

lemma handleLlmRequest_offer:
  "requiresReschedule (handleLlmRequest outcome st order) = Some True \<Longrightarrow>
     \<exists>ord. order = Some ord \<and> canReschedule ord \<and>
           nextState (handleLlmRequest outcome st order) = RESCHEDULE_OPTIONS"
  by (auto simp: handleLlmRequest_def handleOrderAction_def handleGreeting_def
      handleFarewell_def llmResponse_def
      split: llm_result.splits tool_args.splits option.splits if_splits)

lemma intentDispatch_offer:
  assumes "intentDispatch e s w = (Json r, sent, s', w')"
    and "res_requiresReschedule r = Some True"
  shows "\<exists>ord. currentOrder s' = Some ord \<and> canReschedule ord \<and>
               conversationState s' = RESCHEDULE_OPTIONS \<and>
               rescheduleOptions s' =
                 generateRescheduleOptions e
                   (case estimatedDelivery ord of None \<Rightarrow> today e | Some d \<Rightarrow> d)"
proof -
  let ?a = "handleLlmRequest (llm e) (assistant w) (currentOrder s)"
  have "requiresReschedule ?a = Some True"
    using assms by (auto simp: intentDispatch_def handleUserMessage_def mkReply_def Let_def)
  then obtain ord where ord: "currentOrder s = Some ord" "canReschedule ord"
      "nextState ?a = RESCHEDULE_OPTIONS"
    using handleLlmRequest_offer by blast
  then show ?thesis
    using assms(1) \<open>requiresReschedule ?a = Some True\<close>
    by (auto simp: intentDispatch_def handleUserMessage_def Let_def)
qed

lemma processMessage_offer:
  assumes "processMessage e msg s w = (Json r, sent, s', w')"
    and "res_requiresReschedule r = Some True"
  shows "\<exists>ord. currentOrder s' = Some ord \<and> canReschedule ord \<and>
               conversationState s' = RESCHEDULE_OPTIONS \<and>
               rescheduleOptions s' =
                 generateRescheduleOptions e
                   (case estimatedDelivery ord of None \<Rightarrow> today e | Some d \<Rightarrow> d)"
proof -
  have offer: "\<not> noOffer (Json r, sent, s', w')" using assms(2) by (simp add: noOffer_def)
  have otp: "otpVerification e msg s w = None"
    using assms(1) offer otpVerification_noOffer [of e msg s w]
    by (cases "otpVerification e msg s w") (auto simp: processMessage_def)
  have slot: "slotSelection e msg s w = None"
    using assms(1) offer otp slotSelection_noOffer [of e msg s w]
    by (cases "slotSelection e msg s w") (auto simp: processMessage_def)
  obtain s1 where awb: "awbExtraction e msg s w = Inr s1"
    using assms(1) offer otp slot awbExtraction_noOffer [of e msg s w]
    by (cases "awbExtraction e msg s w") (auto simp: processMessage_def)
  have gate: "verificationGate s1 w = None"
    using assms(1) offer otp slot awb verificationGate_noOffer [of s1 w]
    by (cases "verificationGate s1 w") (auto simp: processMessage_def)
  have "intentDispatch e s1 w = (Json r, sent, s', w')"
    using assms(1) otp slot awb gate by (simp add: processMessage_def)
  then show ?thesis using assms(2) by (rule intentDispatch_offer)
qed

text \<open>
  The reply of the chat route has \<^verbatim>\<open>requiresReschedule = true\<close> only when the session's
  current order is reschedulable (\<^verbatim>\<open>canReschedule\<close>: not Delivered, not Out for Delivery,
  not rescheduled before), and then the session is in \<^verbatim>\<open>RESCHEDULE_OPTIONS\<close> and holds
  the options generated from that order.
\<close>

theorem reschedule_offered_only_for_eligible_order:
  assumes "chat e req w = (Json r, sent, w')" and "res_requiresReschedule r = Some True"
  shows "\<exists>s' ord. map_of (sessions w') (sessionId req) = Some s' \<and>
           currentOrder s' = Some ord \<and> canReschedule ord \<and>
           conversationState s' = RESCHEDULE_OPTIONS \<and>
           rescheduleOptions s' =
             generateRescheduleOptions e
               (case estimatedDelivery ord of None \<Rightarrow> today e | Some d \<Rightarrow> d)"
proof -
  have not_expired: "r \<noteq> expiredReply"
    using assms(2) by (auto simp: expiredReply_def mkReply_def)
  then obtain s where run:
    "store (sessionId req) (processMessage e (message req) s w) = (Json r, sent, w')"
    using assms(1) by (auto simp: chat_def split: if_splits option.splits)
  then obtain s' w1 where pm: "processMessage e (message req) s w = (Json r, sent, s', w1)"
    and stored: "map_of (sessions w') (sessionId req) = Some s'"
    by (auto simp: store_def update_conv' split: prod.splits)
  from processMessage_offer [OF pm assms(2)] stored show ?thesis by blast
qed

lemma step3_full:
  "chat env3 (say ''reschedule'') server2 =
     (Json ((mkReply ''Sure, I can help with that! Here are some available slots:''
               RESCHEDULE_OPTIONS)
              \<lparr>res_requiresReschedule := Some True,
               res_rescheduleOptions := Some (map display options3)\<rparr>),
      [], server3)"
  by (simp add: step_defs string_defs fixture_defs generateRescheduleOptions_def
      generateLoop.simps rescheduleOption_def date_defs printDate_def Let_def)

theorem reschedule_offered_only_for_eligible_order_witness:
  "chat env3 (say ''reschedule'') server2 =
     (Json ((mkReply ''Sure, I can help with that! Here are some available slots:''
               RESCHEDULE_OPTIONS)
              \<lparr>res_requiresReschedule := Some True,
               res_rescheduleOptions := Some (map display options3)\<rparr>),
      [], server3) \<and>
   res_requiresReschedule
     ((mkReply ''Sure, I can help with that! Here are some available slots:'' RESCHEDULE_OPTIONS)
        \<lparr>res_requiresReschedule := Some True,
         res_rescheduleOptions := Some (map display options3)\<rparr>) = Some True \<and>
   map_of (sessions server3) (sessionId (say ''reschedule'')) = Some session3 \<and>
   currentOrder session3 = Some orderInTransit \<and> canReschedule orderInTransit \<and>
   conversationState session3 = RESCHEDULE_OPTIONS \<and>
   rescheduleOptions session3 = generateRescheduleOptions env3 (Millis 172800000)"
proof -
  have offer: "res_requiresReschedule
     ((mkReply ''Sure, I can help with that! Here are some available slots:'' RESCHEDULE_OPTIONS)
        \<lparr>res_requiresReschedule := Some True,
         res_rescheduleOptions := Some (map display options3)\<rparr>) = Some True"
    by simp
  have after: "map_of (sessions server3) (sessionId (say ''reschedule'')) = Some session3"
    "currentOrder session3 = Some orderInTransit" "canReschedule orderInTransit"
    "conversationState session3 = RESCHEDULE_OPTIONS"
    by (simp_all add: fixture_defs canReschedule_def)
  have opts: "rescheduleOptions session3 = generateRescheduleOptions env3 (Millis 172800000)"
    by (simp add: fixture_defs string_defs generateRescheduleOptions_def
      generateLoop.simps rescheduleOption_def date_defs printDate_def Let_def)
  show ?thesis
    using reschedule_offered_only_for_eligible_order [OF step3_full offer]
      step3_full offer after opts
    by simp
qed

lemma reachable_serverExpired:
  "reachable (server1\<lparr>sessions := [], expiredSessions := {''s1''}\<rparr>)"
proof -
  have "chat (env0\<lparr>now := 121001\<rparr>) (say ''hello'') server1 =
     (Json expiredReply, [], server1\<lparr>sessions := [], expiredSessions := {''s1''}\<rparr>)"
    by (simp add: step_defs string_defs fixture_defs)
  then show ?thesis
    using reachable.chat_step [OF reachable_server1, of "env0\<lparr>now := 121001\<rparr>" "say ''hello''"]
    by simp
qed

text \<open>
  After every run of the sweep the known-expired set is empty: each id in it belongs to
  a session that is gone, and for those the condition of the second loop is true.
\<close>

theorem known_expired_set_is_empty_after_sweep:
  "reachable w \<Longrightarrow> expiredSessions (cleanupExpiredSessions t w) = {}"
  by (rule sweep_empties_known_expired) (rule reachable_storedLive)

theorem known_expired_set_is_empty_after_sweep_witness:
  "reachable (server1\<lparr>sessions := [], expiredSessions := {''s1''}\<rparr>) \<and>
   expiredSessions (server1\<lparr>sessions := [], expiredSessions := {''s1''}\<rparr>) = {''s1''} \<and>
   expiredSessions
     (cleanupExpiredSessions 122000 (server1\<lparr>sessions := [], expiredSessions := {''s1''}\<rparr>)) = {}"
  using known_expired_set_is_empty_after_sweep [OF reachable_serverExpired, of 122000]
    reachable_serverExpired
  by simp

text \<open>
  A session that has passed OTP verification and then names an order of the Order
  Store (a session that is processed and is not choosing a slot): no OTP is issued and
  nothing is sent, whichever order the verification was for; the named order becomes
  the session's current order, and the session stays verified with the code and the
  issuance time it had.
\<close>

theorem verified_session_names_another_order:
  assumes "sessionId req \<noteq> []" and "sessionId req \<notin> expiredSessions w"
    and "liveSession e w (sessionId req) = Some s"
    and "otpVerified s" and "rescheduleOptions s = []"
    and "message req = Some m" and "extractAWB m = Some a"
    and "getOrderStatus (db w) a = Inr (Some ord)"
    and "chat e req w = (resp, sent, w')"
  shows "sent = [] \<and>
         (\<exists>s'. map_of (sessions w') (sessionId req) = Some s' \<and>
               currentOrder s' = Some ord \<and> otpVerified s' \<and> otp s' = otp s \<and>
               otpTimestamp s' = otpTimestamp s)"
proof -
  let ?s1 = "s\<lparr>currentOrder := Some ord\<rparr>"
  obtain r1 n1 s2 w2 where disp: "intentDispatch e ?s1 w = (r1, n1, s2, w2)"
    by (metis prod_cases4)
  have kept: "n1 = []" "currentOrder s2 = Some ord" "otpVerified s2" "otp s2 = otp s"
    "otpTimestamp s2 = otpTimestamp s"
    using disp assms(4)
    by (auto simp: intentDispatch_def Let_def split: prod.splits if_splits)
  have "otpVerification e (Some m) s w = None"
    using assms(4) by (simp add: otpVerification_def)
  moreover have "slotSelection e (Some m) s w = None"
    using assms(5) by (simp add: slotSelection_def)
  moreover have "awbExtraction e (Some m) s w = Inr ?s1"
    using assms(4,7,8) by (simp add: awbExtraction_def)
  moreover have "verificationGate ?s1 w = None"
    using assms(4) by (simp add: verificationGate_def)
  ultimately have "processMessage e (Some m) s w = (r1, n1, s2, w2)"
    using disp by (simp add: processMessage_def)
  then have "(resp, sent, w') = store (sessionId req) (r1, n1, s2, w2)"
    using chat_live [OF assms(1,2,3)] assms(6,9) by simp
  then show ?thesis
    using kept by (simp add: store_def update_conv')
qed

theorem verified_session_names_another_order_witness:
  "sessionId (say ''AWB123456'') \<noteq> [] \<and>
   sessionId (say ''AWB123456'') \<notin> expiredSessions server2 \<and>
   liveSession envDetails server2 (sessionId (say ''AWB123456'')) =
     Some (session2\<lparr>lastActive := 61000\<rparr>) \<and>
   otpVerified (session2\<lparr>lastActive := 61000\<rparr>) \<and>
   rescheduleOptions (session2\<lparr>lastActive := 61000\<rparr>) = [] \<and>
   currentOrder (session2\<lparr>lastActive := 61000\<rparr>) = Some orderInTransit \<and>
   message (say ''AWB123456'') = Some ''AWB123456'' \<and>
   extractAWB ''AWB123456'' = Some ''AWB123456'' \<and>
   getOrderStatus (db server2) ''AWB123456'' = Inr (Some orderDelivered) \<and>
   snd (chat envDetails (say ''AWB123456'') server2) =
     ([],
      server2\<lparr>sessions := [(''s1'', session2\<lparr>currentOrder := Some orderDelivered,
                                              lastActive := 61000\<rparr>)],
              assistant := ORDER_FOUND\<rparr>)"
proof -
  let ?s = "session2\<lparr>lastActive := 61000\<rparr>"
  have live: "sessionId (say ''AWB123456'') \<noteq> []"
    "sessionId (say ''AWB123456'') \<notin> expiredSessions server2"
    "liveSession envDetails server2 (sessionId (say ''AWB123456'')) = Some ?s"
    by (simp_all add: liveSession_def SESSION_EXPIRATION_def fixture_defs envDetails_def)
  have verified: "otpVerified ?s" "rescheduleOptions ?s = []"
    by (simp_all add: fixture_defs)
  have first: "currentOrder ?s = Some orderInTransit"
    by (simp add: fixture_defs)
  have msg: "message (say ''AWB123456'') = Some ''AWB123456''"
    "extractAWB ''AWB123456'' = Some ''AWB123456''"
    "getOrderStatus (db server2) ''AWB123456'' = Inr (Some orderDelivered)"
    by (simp_all add: say_def string_defs getOrderStatus_def fixture_defs)
  have run: "chat envDetails (say ''AWB123456'') server2 =
      (fst (chat envDetails (say ''AWB123456'') server2),
       [],
       server2\<lparr>sessions := [(''s1'', session2\<lparr>currentOrder := Some orderDelivered,
                                               lastActive := 61000\<rparr>)],
               assistant := ORDER_FOUND\<rparr>)"
    by (simp add: step_defs string_defs fixture_defs envDetails_def)
  show ?thesis
    using verified_session_names_another_order [OF live verified msg run]
      live verified first msg run
    by (metis snd_conv)
qed


end
